theory Spec2Isabelle
  imports Complex_Main
begin

unbundle bit_operations_syntax

section \<open>Python strings\<close>

text \<open>
  A Python \<^verbatim>\<open>str\<close> is modelled as a \<^typ>\<open>string\<close>. The character predicates below are
  Python's on the ASCII range; characters outside ASCII are neither digits, letters nor
  white space here, so the development speaks about ASCII data.
\<close>

definition py_isdigit :: "char \<Rightarrow> bool" where
  "py_isdigit c = (48 \<le> (of_char c :: nat) \<and> (of_char c :: nat) \<le> 57)"

definition py_isspace :: "char \<Rightarrow> bool" where
  "py_isspace c =
     (let n = (of_char c :: nat) in (9 \<le> n \<and> n \<le> 13) \<or> (28 \<le> n \<and> n \<le> 32))"

definition py_isupper :: "char \<Rightarrow> bool" where
  "py_isupper c = (65 \<le> (of_char c :: nat) \<and> (of_char c :: nat) \<le> 90)"

definition py_islower :: "char \<Rightarrow> bool" where
  "py_islower c = (97 \<le> (of_char c :: nat) \<and> (of_char c :: nat) \<le> 122)"

definition py_isalpha :: "char \<Rightarrow> bool" where
  "py_isalpha c = (py_isupper c \<or> py_islower c)"

text \<open>The class \<^verbatim>\<open>\w\<close> of \<^verbatim>\<open>re\<close>.\<close>

definition py_isword :: "char \<Rightarrow> bool" where
  "py_isword c = (py_isdigit c \<or> py_isalpha c \<or> c = CHR ''_'')"

definition upper_letters :: string where "upper_letters = ''ABCDEFGHIJKLMNOPQRSTUVWXYZ''"
definition lower_letters :: string where "lower_letters = ''abcdefghijklmnopqrstuvwxyz''"

definition lower_char :: "char \<Rightarrow> char" where
  "lower_char c = (case map_of (zip upper_letters lower_letters) c of Some d \<Rightarrow> d | None \<Rightarrow> c)"

definition upper_char :: "char \<Rightarrow> char" where
  "upper_char c = (case map_of (zip lower_letters upper_letters) c of Some d \<Rightarrow> d | None \<Rightarrow> c)"

text \<open>\<^verbatim>\<open>str.lower\<close>; on ASCII text \<^verbatim>\<open>str.casefold\<close> is the same function.\<close>

definition py_lower :: "string \<Rightarrow> string" where
  "py_lower s = map lower_char s"

definition py_casefold :: "string \<Rightarrow> string" where
  "py_casefold s = map lower_char s"

definition py_strip :: "string \<Rightarrow> string" where
  "py_strip s = rev (dropWhile py_isspace (rev (dropWhile py_isspace s)))"

definition py_startswith :: "string \<Rightarrow> string \<Rightarrow> bool" where
  "py_startswith s pre = (take (length pre) s = pre)"

definition py_endswith :: "string \<Rightarrow> string \<Rightarrow> bool" where
  "py_endswith s suf = (length suf \<le> length s \<and> drop (length s - length suf) s = suf)"

definition bslash :: char where "bslash = CHR 0x5C"
definition squote :: char where "squote = CHR 0x27"
definition dquote :: char where "dquote = CHR 0x22"
definition btick :: char where "btick = CHR 0x60"
definition newline :: char where "newline = CHR 0x0A"

text \<open>\<^verbatim>\<open>int(s)\<close> on a string of decimal digits, and \<^verbatim>\<open>str(n)\<close> on an integer.\<close>

definition digit_val :: "char \<Rightarrow> nat" where
  "digit_val c = of_char c - 48"

definition nat_of_digits :: "string \<Rightarrow> nat" where
  "nat_of_digits s = foldl (\<lambda>acc c. 10 * acc + digit_val c) 0 s"

definition digit_char :: "nat \<Rightarrow> char" where
  "digit_char d = ''0123456789'' ! d"

fun digits_of_nat :: "nat \<Rightarrow> string" where
  "digits_of_nat n = (if n < 10 then [digit_char n] else digits_of_nat (n div 10) @ [digit_char (n mod 10)])"

declare digits_of_nat.simps [simp del]

definition py_str_int :: "int \<Rightarrow> string" where
  "py_str_int i = (if i < 0 then CHR ''-'' # digits_of_nat (nat (- i)) else digits_of_nat (nat i))"

section \<open>A model of Python's \<^verbatim>\<open>re\<close> module\<close>

text \<open>
  The program is written around regular expressions. Each pattern of the source is
  transcribed as a term of the type \<open>rx\<close> below, and \<open>ms\<close> is a backtracking matcher in
  the order of Python's: for a start state it lists every way the pattern can match, the
  way Python would take first at the head of the list. Alternatives are tried left to
  right, a greedy repetition tries one more round before stopping, a lazy one stops
  before trying one more round.
\<close>

datatype cclass = Ch char | Rng char char | Digit | Space | Word

fun in_cclass :: "cclass \<Rightarrow> char \<Rightarrow> bool" where
  "in_cclass (Ch d) c = (c = d)"
| "in_cclass (Rng a b) c = ((of_char a :: nat) \<le> of_char c \<and> (of_char c :: nat) \<le> of_char b)"
| "in_cclass Digit c = py_isdigit c"
| "in_cclass Space c = py_isspace c"
| "in_cclass Word c = py_isword c"

text \<open>Membership in a bracket expression; under IGNORECASE either case of the character counts.\<close>

definition in_set :: "bool \<Rightarrow> cclass list \<Rightarrow> char \<Rightarrow> bool" where
  "in_set ic ks c =
     (\<exists>k \<in> set ks. in_cclass k c \<or> (ic \<and> (in_cclass k (lower_char c) \<or> in_cclass k (upper_char c))))"

datatype rx =
    Lit char                      \<comment> \<open>one literal character\<close>
  | Dot                           \<comment> \<open>\<^verbatim>\<open>.\<close>\<close>
  | Set "cclass list"             \<comment> \<open>\<^verbatim>\<open>[...]\<close>, \<^verbatim>\<open>\d\<close>, \<^verbatim>\<open>\s\<close>, \<^verbatim>\<open>\w\<close>\<close>
  | NSet "cclass list"            \<comment> \<open>\<^verbatim>\<open>[^...]\<close>\<close>
  | Eps
  | Cat rx rx
  | Alt rx rx                     \<comment> \<open>\<^verbatim>\<open>a|b\<close>\<close>
  | Rep nat "nat option" rx       \<comment> \<open>greedy \<^verbatim>\<open>{m,n}\<close>; \<open>None\<close> is no upper bound\<close>
  | RepLazy nat "nat option" rx   \<comment> \<open>lazy \<^verbatim>\<open>{m,n}?\<close>\<close>
  | Grp nat rx                    \<comment> \<open>capturing group with its number\<close>
  | Bref nat                      \<comment> \<open>back-reference \<^verbatim>\<open>\1\<close>\<close>
  | Bol                           \<comment> \<open>\<^verbatim>\<open>^\<close>\<close>
  | Eol                           \<comment> \<open>\<^verbatim>\<open>$\<close>\<close>
  | WordB                         \<comment> \<open>\<^verbatim>\<open>\b\<close>\<close>
  | Ahead rx                      \<comment> \<open>\<^verbatim>\<open>(?=...)\<close>\<close>
  | NAhead rx                     \<comment> \<open>\<^verbatim>\<open>(?!...)\<close>\<close>
  | NBehind "cclass list"         \<comment> \<open>\<^verbatim>\<open>(?<![...])\<close>, one character wide\<close>

definition Str :: "string \<Rightarrow> rx" where
  "Str s = foldr (\<lambda>c r. Cat (Lit c) r) s Eps"

definition Seq :: "rx list \<Rightarrow> rx" where
  "Seq rs = foldr Cat rs Eps"

definition Alts :: "rx list \<Rightarrow> rx" where
  "Alts rs = foldr Alt (butlast rs) (last rs)"

abbreviation Star :: "rx \<Rightarrow> rx" where "Star r \<equiv> Rep 0 None r"
abbreviation Plus :: "rx \<Rightarrow> rx" where "Plus r \<equiv> Rep 1 None r"
abbreviation Opt :: "rx \<Rightarrow> rx" where "Opt r \<equiv> Rep 0 (Some 1) r"
abbreviation StarLazy :: "rx \<Rightarrow> rx" where "StarLazy r \<equiv> RepLazy 0 None r"
abbreviation PlusLazy :: "rx \<Rightarrow> rx" where "PlusLazy r \<equiv> RepLazy 1 None r"

text \<open>
  A matcher state: the character before the current position (for \<^verbatim>\<open>^\<close>, \<^verbatim>\<open>\b\<close> and
  look-behind), the text still to be read, and the groups captured so far, the latest
  capture of a group first.
\<close>

datatype mst = MSt (prev: "char option") (rest: string) (caps: "(nat \<times> string) list")

datatype reflags = ReFlags (ign: bool) (multi: bool) (dotall: bool)

definition reflags_of :: "int \<Rightarrow> reflags" where
  "reflags_of f = ReFlags (f AND 2 \<noteq> 0) (f AND 8 \<noteq> 0) (f AND 16 \<noteq> 0)"

text \<open>
  Repetition. A round that consumes nothing is not repeated once the minimum is
  reached, so \<open>mn + length (rest st)\<close> rounds of fuel are never used up.
\<close>

primrec iter :: "nat \<Rightarrow> nat \<Rightarrow> nat option \<Rightarrow> bool \<Rightarrow> (mst \<Rightarrow> mst list) \<Rightarrow> mst \<Rightarrow> mst list" where
  "iter 0 mn mx greedy f st = (if mn = 0 then [st] else [])"
| "iter (Suc k) mn mx greedy f st =
     (if mx = Some 0 then [st]
      else (let more = concat (map (iter k (mn - 1) (map_option (\<lambda>m. m - 1) mx) greedy f)
                           (filter (\<lambda>st'. 0 < mn \<or> length (rest st') < length (rest st)) (f st)))
            in if 0 < mn then more else if greedy then more @ [st] else st # more))"

fun step_char :: "(char \<Rightarrow> bool) \<Rightarrow> mst \<Rightarrow> mst list" where
  "step_char P (MSt p [] cp) = []"
| "step_char P (MSt p (d # ds) cp) = (if P d then [MSt (Some d) ds cp] else [])"

definition lit_eq :: "bool \<Rightarrow> char \<Rightarrow> char \<Rightarrow> bool" where
  "lit_eq ic c d = (d = c \<or> (ic \<and> lower_char d = lower_char c))"

fun eat :: "bool \<Rightarrow> string \<Rightarrow> mst \<Rightarrow> mst list" where
  "eat ic [] st = [st]"
| "eat ic (c # cs) st = concat (map (eat ic cs) (step_char (lit_eq ic c) st))"

definition opt_word :: "char option \<Rightarrow> bool" where
  "opt_word p = (case p of None \<Rightarrow> False | Some c \<Rightarrow> py_isword c)"

definition next_char :: "mst \<Rightarrow> char option" where
  "next_char st = (case rest st of [] \<Rightarrow> None | c # _ \<Rightarrow> Some c)"

primrec ms :: "reflags \<Rightarrow> rx \<Rightarrow> mst \<Rightarrow> mst list" where
  "ms fl (Lit c) = step_char (lit_eq (ign fl) c)"
| "ms fl Dot = step_char (\<lambda>d. dotall fl \<or> d \<noteq> newline)"
| "ms fl (Set ks) = step_char (in_set (ign fl) ks)"
| "ms fl (NSet ks) = step_char (\<lambda>d. \<not> in_set (ign fl) ks d)"
| "ms fl Eps = (\<lambda>st. [st])"
| "ms fl (Cat a b) = (\<lambda>st. concat (map (ms fl b) (ms fl a st)))"
| "ms fl (Alt a b) = (\<lambda>st. ms fl a st @ ms fl b st)"
| "ms fl (Rep mn mx r) = (\<lambda>st. iter (mn + length (rest st)) mn mx True (ms fl r) st)"
| "ms fl (RepLazy mn mx r) = (\<lambda>st. iter (mn + length (rest st)) mn mx False (ms fl r) st)"
| "ms fl (Grp n r) =
     (\<lambda>st. map (\<lambda>e. MSt (prev e) (rest e)
                 ((n, take (length (rest st) - length (rest e)) (rest st)) # caps e))
              (ms fl r st))"
| "ms fl (Bref n) =
     (\<lambda>st. case map_of (caps st) n of None \<Rightarrow> [] | Some t \<Rightarrow> eat (ign fl) t st)"
| "ms fl Bol =
     (\<lambda>st. if prev st = None \<or> (multi fl \<and> prev st = Some newline) then [st] else [])"
| "ms fl Eol =
     (\<lambda>st. if rest st = [] \<or> rest st = [newline] \<or> (multi fl \<and> next_char st = Some newline)
            then [st] else [])"
| "ms fl WordB = (\<lambda>st. if opt_word (prev st) \<noteq> opt_word (next_char st) then [st] else [])"
| "ms fl (Ahead r) = (\<lambda>st. if ms fl r st = [] then [] else [st])"
| "ms fl (NAhead r) = (\<lambda>st. if ms fl r st = [] then [st] else [])"
| "ms fl (NBehind ks) =
     (\<lambda>st. case prev st of None \<Rightarrow> [st]
            | Some c \<Rightarrow> if in_set (ign fl) ks c then [] else [st])"

text \<open>A match object: the matched text and the captured groups.\<close>

datatype rmatch = RMatch (m_text: string) (m_caps: "(nat \<times> string) list")

text \<open>\<^verbatim>\<open>m.group(k)\<close>, with \<open>None\<close> for a group that took no part in the match.\<close>

definition m_group :: "rmatch \<Rightarrow> nat \<Rightarrow> string option" where
  "m_group m k = (if k = 0 then Some (m_text m) else map_of (m_caps m) k)"

text \<open>What \<^verbatim>\<open>re.findall\<close> reports for a group: the empty string when it took no part.\<close>

definition grp :: "rmatch \<Rightarrow> nat \<Rightarrow> string" where
  "grp m k = (case m_group m k of None \<Rightarrow> [] | Some t \<Rightarrow> t)"

definition mk_match :: "string \<Rightarrow> mst \<Rightarrow> rmatch" where
  "mk_match s e = RMatch (take (length s - length (rest e)) s) (caps e)"

text \<open>\<^verbatim>\<open>re.match\<close>: a match at the very start of the string.\<close>

definition re_match :: "reflags \<Rightarrow> rx \<Rightarrow> string \<Rightarrow> rmatch option" where
  "re_match fl r s = (case ms fl r (MSt None s []) of [] \<Rightarrow> None | e # _ \<Rightarrow> Some (mk_match s e))"

text \<open>\<^verbatim>\<open>re.fullmatch\<close>: the first way of matching that reaches the end of the string.\<close>

definition re_fullmatch :: "reflags \<Rightarrow> rx \<Rightarrow> string \<Rightarrow> rmatch option" where
  "re_fullmatch fl r s =
     (case filter (\<lambda>e. rest e = []) (ms fl r (MSt None s [])) of
        [] \<Rightarrow> None | e # _ \<Rightarrow> Some (mk_match s e))"

text \<open>\<^verbatim>\<open>re.search\<close>: the leftmost position with a match.\<close>

fun search_from :: "reflags \<Rightarrow> rx \<Rightarrow> char option \<Rightarrow> string \<Rightarrow> rmatch option" where
  "search_from fl r p [] =
     (case ms fl r (MSt p [] []) of [] \<Rightarrow> None | e # _ \<Rightarrow> Some (mk_match [] e))"
| "search_from fl r p (c # cs) =
     (case ms fl r (MSt p (c # cs) []) of
        [] \<Rightarrow> search_from fl r (Some c) cs
      | e # _ \<Rightarrow> Some (mk_match (c # cs) e))"

definition re_search :: "reflags \<Rightarrow> rx \<Rightarrow> string \<Rightarrow> rmatch option" where
  "re_search fl r s = search_from fl r None s"

text \<open>
  The scan behind \<^verbatim>\<open>finditer\<close>, \<^verbatim>\<open>findall\<close> and \<^verbatim>\<open>sub\<close>: the string cut into the
  characters outside every match and the successive non-overlapping matches. After a
  match the search resumes at its end; after an empty match, a match at the same place
  must be non-empty. The counter is the number of characters of the last match still to
  be skipped.
\<close>

datatype piece = Txt char | Mat rmatch

function scan :: "reflags \<Rightarrow> rx \<Rightarrow> nat \<Rightarrow> char option \<Rightarrow> string \<Rightarrow> piece list" where
  "scan fl r (Suc k) p [] = []"
| "scan fl r (Suc k) p (c # cs) = scan fl r k (Some c) cs"
| "scan fl r 0 p s =
     (let found = ms fl r (MSt p s []);
          onward = (case s of [] \<Rightarrow> [] | c # cs \<Rightarrow> Txt c # scan fl r 0 (Some c) cs)
      in case found of
           [] \<Rightarrow> onward
         | e # _ \<Rightarrow>
             (let n = length s - length (rest e) in
              if 0 < n then Mat (mk_match s e) # scan fl r n p s
              else Mat (mk_match s e) #
                (case filter (\<lambda>e'. length (rest e') < length s) found of
                   [] \<Rightarrow> onward
                 | e' # _ \<Rightarrow>
                     (let n' = length s - length (rest e') in
                      if 0 < n' then Mat (mk_match s e') # scan fl r n' p s else onward))))"
  by pat_completeness auto
termination
  by (relation "measure (\<lambda>(fl, r, k, p, s). 2 * length s + (if k = 0 then 1 else 0))") auto

definition re_finditer :: "reflags \<Rightarrow> rx \<Rightarrow> string \<Rightarrow> rmatch list" where
  "re_finditer fl r s = concat (map (\<lambda>pc. case pc of Txt c \<Rightarrow> [] | Mat m \<Rightarrow> [m]) (scan fl r 0 None s))"

text \<open>\<^verbatim>\<open>re.sub\<close> with a function as replacement.\<close>

definition re_sub_fn :: "reflags \<Rightarrow> rx \<Rightarrow> (rmatch \<Rightarrow> string) \<Rightarrow> string \<Rightarrow> string" where
  "re_sub_fn fl r f s =
     concat (map (\<lambda>pc. case pc of Txt c \<Rightarrow> [c] | Mat m \<Rightarrow> f m) (scan fl r 0 None s))"

text \<open>
  \<^verbatim>\<open>re.sub\<close> with a string as replacement. A replacement with a backslash in it is a
  template, parsed before the search starts: \<^verbatim>\<open>\1\<close> and \<^verbatim>\<open>\g<1>\<close> are group references,
  \<^verbatim>\<open>\n\<close>, \<^verbatim>\<open>\t\<close>, ... and octal escapes are characters, a backslash before any other ASCII
  letter and a backslash at the end raise \<^verbatim>\<open>re.error\<close>, as does a reference to a
  group the pattern does not have. No pattern of the program names its groups, so a
  group name that is not a decimal number raises. \<open>None\<close> is the exception.
\<close>

datatype titem = TLit char | TGrp nat

definition is_octdigit :: "char \<Rightarrow> bool" where
  "is_octdigit c = (48 \<le> (of_char c :: nat) \<and> (of_char c :: nat) \<le> 55)"

definition template_escape :: "char \<Rightarrow> char option" where
  "template_escape c =
     (if c = CHR ''a'' then Some (CHR 0x07) else if c = CHR ''b'' then Some (CHR 0x08)
      else if c = CHR ''f'' then Some (CHR 0x0C) else if c = CHR ''n'' then Some (CHR 0x0A)
      else if c = CHR ''r'' then Some (CHR 0x0D) else if c = CHR ''t'' then Some (CHR 0x09)
      else if c = CHR ''v'' then Some (CHR 0x0B) else if c = bslash then Some bslash
      else None)"

definition oct_val :: "string \<Rightarrow> nat" where
  "oct_val s = foldl (\<lambda>acc c. 8 * acc + digit_val c) 0 s"

definition tcons :: "titem list \<Rightarrow> titem list option \<Rightarrow> titem list option" where
  "tcons xs r = map_option (\<lambda>ys. xs @ ys) r"

definition tgroup :: "nat \<Rightarrow> nat \<Rightarrow> titem list option \<Rightarrow> titem list option" where
  "tgroup g i r = (if i > g then None else tcons [TGrp i] r)"

function parse_template :: "nat \<Rightarrow> string \<Rightarrow> titem list option" where
  "parse_template g [] = Some []"
| "parse_template g (c # cs) =
     (if c \<noteq> bslash then tcons [TLit c] (parse_template g cs)
      else case cs of
        [] \<Rightarrow> None
      | d # ds \<Rightarrow>
          if d = CHR ''g'' then
            (if take 1 ds \<noteq> ''<'' then None
             else let name = takeWhile (\<lambda>x. x \<noteq> CHR ''>'') (drop 1 ds) in
               if length name = length (drop 1 ds) \<or> name = [] \<or> \<not> list_all py_isdigit name then None
               else tgroup g (nat_of_digits name) (parse_template g (drop (length name + 2) ds)))
          else if d = CHR ''0'' then
            (let o1 = takeWhile is_octdigit (take 2 ds) in
             tcons [TLit (char_of (oct_val o1 mod 256))] (parse_template g (drop (length o1) ds)))
          else if py_isdigit d then
            (case ds of
               [] \<Rightarrow> tgroup g (digit_val d) (Some [])
             | e # es \<Rightarrow>
                 if \<not> py_isdigit e then tgroup g (digit_val d) (parse_template g ds)
                 else if is_octdigit d \<and> is_octdigit e \<and> es \<noteq> [] \<and> is_octdigit (hd es) then
                   (if oct_val [d, e, hd es] > 255 then None
                    else tcons [TLit (char_of (oct_val [d, e, hd es]))] (parse_template g (tl es)))
                 else tgroup g (nat_of_digits [d, e]) (parse_template g es))
          else (case template_escape d of
                  Some x \<Rightarrow> tcons [TLit x] (parse_template g ds)
                | None \<Rightarrow> if py_isalpha d then None
                          else tcons [TLit bslash, TLit d] (parse_template g ds)))"
  by pat_completeness auto
termination
  by (relation "measure (\<lambda>(g, s). length s)") (auto simp: less_Suc_eq_le)

text \<open>The number of capturing groups of a pattern.\<close>

primrec rx_groups :: "rx \<Rightarrow> nat" where
  "rx_groups (Lit c) = 0"
| "rx_groups Dot = 0"
| "rx_groups (Set ks) = 0"
| "rx_groups (NSet ks) = 0"
| "rx_groups Eps = 0"
| "rx_groups (Cat a b) = max (rx_groups a) (rx_groups b)"
| "rx_groups (Alt a b) = max (rx_groups a) (rx_groups b)"
| "rx_groups (Rep mn mx r) = rx_groups r"
| "rx_groups (RepLazy mn mx r) = rx_groups r"
| "rx_groups (Grp n r) = max n (rx_groups r)"
| "rx_groups (Bref n) = 0"
| "rx_groups Bol = 0"
| "rx_groups Eol = 0"
| "rx_groups WordB = 0"
| "rx_groups (Ahead r) = rx_groups r"
| "rx_groups (NAhead r) = rx_groups r"
| "rx_groups (NBehind ks) = 0"

definition expand_template :: "titem list \<Rightarrow> rmatch \<Rightarrow> string" where
  "expand_template t m = concat (map (\<lambda>it. case it of TLit c \<Rightarrow> [c] | TGrp k \<Rightarrow> grp m k) t)"

definition re_sub :: "reflags \<Rightarrow> rx \<Rightarrow> string \<Rightarrow> string \<Rightarrow> string option" where
  "re_sub fl r repl s =
     (if bslash \<notin> set repl then Some (re_sub_fn fl r (\<lambda>m. repl) s)
      else case parse_template (rx_groups r) repl of
             None \<Rightarrow> None
           | Some t \<Rightarrow> Some (re_sub_fn fl r (expand_template t) s))"

text \<open>
  \<^verbatim>\<open>re.escape\<close>: a backslash before each of the characters \<^verbatim>\<open>()[]{}?*+-|^$\.&~#\<close>
  and white space.
\<close>

definition re_special :: "char \<Rightarrow> bool" where
  "re_special c = (c \<in> set ''()[]{}?*+-|^$.&~# '' \<or> c = bslash
                   \<or> (9 \<le> (of_char c :: nat) \<and> (of_char c :: nat) \<le> 13))"

definition re_escape :: "string \<Rightarrow> string" where
  "re_escape s = concat (map (\<lambda>c. if re_special c then [bslash, c] else [c]) s)"

section \<open>The dataset and the external libraries\<close>

text \<open>
  A pandas DataFrame: the row labels (\<^verbatim>\<open>df.index\<close>) and the columns in order. A cell is
  held as the text that \<^verbatim>\<open>astype("string")\<close> gives for it, \<open>None\<close> for a missing value
  (NA); \<open>col_textual\<close> is the dtype test of \<^verbatim>\<open>text_columns\<close> (object or string dtype).
  A mask is a list of booleans, one per row, in row order.
\<close>

type_synonym cell = "string option"

record column =
  col_name :: string
  col_textual :: bool
  col_cells :: "cell list"

record dataframe =
  df_index :: "int list"
  df_cols :: "column list"

definition df_columns :: "dataframe \<Rightarrow> string list" where
  "df_columns df = map col_name (df_cols df)"

definition df_len :: "dataframe \<Rightarrow> nat" where
  "df_len df = length (df_index df)"

text \<open>\<^verbatim>\<open>df[col]\<close> as strings, for a column name known to be in \<^verbatim>\<open>df.columns\<close>.\<close>

definition df_col :: "dataframe \<Rightarrow> string \<Rightarrow> cell list option" where
  "df_col df name = map_option col_cells (find (\<lambda>c. col_name c = name) (df_cols df))"

text \<open>A well-formed frame: every column has one cell per row label.\<close>

definition df_ok :: "dataframe \<Rightarrow> bool" where
  "df_ok df = list_all (\<lambda>c. length (col_cells c) = length (df_index df)) (df_cols df)"

datatype py_exn = ReError | KeyError string | NameError string

text \<open>
  What the program calls but does not define: pandas' query engine, numeric coercion,
  \<^verbatim>\<open>float\<close>, and the parser of \<^verbatim>\<open>re.compile\<close> for patterns that only exist at run time
  (the plan's pattern, patterns inside a row filter, the pattern derived from a row
  filter). Each is a parameter; \<open>None\<close> is an exception raised by the library.
\<close>

record ext =
  pd_query :: "dataframe \<Rightarrow> string \<Rightarrow> int list option"
  pd_to_numeric :: "cell \<Rightarrow> rat option"
  py_float :: "string \<Rightarrow> rat"
  re_compile :: "string \<Rightarrow> int \<Rightarrow> rx option"

section \<open>The plan and its validation (plan\_v2.py)\<close>

record RegexPlan =
  plan_intent :: string
  plan_pattern :: string
  plan_flags :: string
  plan_columns :: "string list option"
  plan_replacement :: "string option"
  plan_row_filter :: "string option"

definition allowed_flags :: string where
  "allowed_flags = ''imsluxUu''"

definition na_like :: "string list" where
  "na_like = [''NA'', ''N/A'', ''NaN'', ''nan'', ''na'']"

text \<open>\<^verbatim>\<open>RegexPlan.normalize\<close>. \<^verbatim>\<open>x or y\<close> on strings is \<open>y\<close> when \<open>x\<close> is empty.\<close>

definition normalize_plan :: "RegexPlan \<Rightarrow> RegexPlan" where
  "normalize_plan p =
     (let safe0 = filter (\<lambda>ch. ch \<in> set allowed_flags)
                    (if plan_flags p = [] then ''i'' else plan_flags p);
          safe = (if safe0 = [] then ''i'' else safe0);
          rep0 = py_strip (case plan_replacement p of None \<Rightarrow> [] | Some r \<Rightarrow> r);
          rep1 = (if rep0 = [] then None else Some rep0);
          rep = (if rep1 \<in> set (map Some na_like) then Some ''N/A (missing)'' else rep1);
          pat0 = py_strip (plan_pattern p);
          pat = (if pat0 = [] then ''^.*$'' else pat0)
      in p\<lparr>plan_flags := safe, plan_replacement := rep, plan_pattern := pat\<rparr>)"

datatype plan_error =
    BadIntent
  | PatternNotCompilable
  | UnsupportedFlag char
  | UnknownColumns "string list"
  | ReplacementRequired
  | UnknownFilterColumn string

text \<open>The pattern \<^verbatim>\<open>`([^`]+)`\<close> that finds the back-quoted names of a row filter.\<close>

definition rx_backticked :: rx where
  "rx_backticked = Seq [Lit btick, Grp 1 (Plus (NSet [Ch btick])), Lit btick]"

text \<open>
  \<^verbatim>\<open>_validate_plan\<close>. The function collects its error messages in a list and raises
  \<^verbatim>\<open>PlanValidationError\<close> with that list when it is not empty; the model returns the
  list.
\<close>

definition validate_plan :: "ext \<Rightarrow> RegexPlan \<Rightarrow> string list \<Rightarrow> plan_error list" where
  "validate_plan E plan headers =
     (if plan_intent plan \<notin> {''find'', ''replace''} then [BadIntent] else [])
     @ (if re_compile E (plan_pattern plan) 0 = None then [PatternNotCompilable] else [])
     @ map UnsupportedFlag (filter (\<lambda>f. f \<notin> set allowed_flags) (plan_flags plan))
     @ (case plan_columns plan of
          None \<Rightarrow> []
        | Some cols \<Rightarrow>
            (let unknown = filter (\<lambda>c. py_lower c \<notin> set (map py_lower headers)) cols
             in if cols \<noteq> [] \<and> unknown \<noteq> [] then [UnknownColumns unknown] else []))
     @ (if plan_intent plan = ''replace''
           \<and> (plan_replacement plan = None \<or> plan_replacement plan = Some [])
        then [ReplacementRequired] else [])
     @ (case plan_row_filter plan of
          None \<Rightarrow> []
        | Some rf \<Rightarrow>
            map UnknownFilterColumn
              (filter (\<lambda>t. t \<notin> set headers)
                 (map (\<lambda>m. grp m 1) (re_finditer (reflags_of 0) rx_backticked rf))))"

section \<open>The date normalizer (date\_normalizer.py)\<close>

record datetime =
  dt_year :: nat
  dt_month :: nat
  dt_day :: nat
  dt_hour :: nat
  dt_minute :: nat
  dt_second :: nat

text \<open>
  The date libraries the module calls. \<open>dateparser_parse\<close> and \<open>dateutil_parse\<close> are
  \<open>None\<close> when the library is not installed (\<^verbatim>\<open>_HAS_DATEPARSER\<close>, \<^verbatim>\<open>_HAS_DATEUTIL\<close>);
  applied to a token and the day-first flag they give \<open>None\<close> when the library finds no
  date or raises. \<open>strptime\<close> takes the token and the format. \<open>float_str\<close> is \<^verbatim>\<open>str\<close>
  on a float.
\<close>

record date_ext =
  dateparser_parse :: "(string \<Rightarrow> bool \<Rightarrow> datetime option) option"
  dateutil_parse :: "(string \<Rightarrow> bool \<Rightarrow> datetime option) option"
  strptime :: "string \<Rightarrow> string \<Rightarrow> datetime option"
  float_str :: "rat \<Rightarrow> string"

text \<open>\<^verbatim>\<open>str.replace(old, new)\<close> for a non-empty \<open>old\<close>: left to right, without overlaps.\<close>

function py_replace :: "string \<Rightarrow> string \<Rightarrow> string \<Rightarrow> string" where
  "py_replace old new [] = []"
| "py_replace old new (c # cs) =
     (if old \<noteq> [] \<and> take (length old) (c # cs) = old
      then new @ py_replace old new (drop (length old) (c # cs))
      else c # py_replace old new cs)"
  by pat_completeness auto
termination
  by (relation "measure (\<lambda>(old, new, s). length s)") (auto simp: neq_Nil_conv)

text \<open>\<^verbatim>\<open>_to_strftime\<close>: the replacements are made in the order of the dictionary.\<close>

definition strftime_mapping :: "(string \<times> string) list" where
  "strftime_mapping =
     [(''YYYY'', ''%Y''), (''YY'', ''%y''), (''MM'', ''%m''), (''DD'', ''%d''),
      (''HH'', ''%H''), (''mm'', ''%M''), (''ss'', ''%S'')]"

definition to_strftime :: "string \<Rightarrow> string" where
  "to_strftime fmt = foldl (\<lambda>out (k, v). py_replace k v out) fmt strftime_mapping"

definition pad2 :: "nat \<Rightarrow> string" where
  "pad2 n = (if n < 10 then CHR ''0'' # digits_of_nat n else digits_of_nat n)"

definition pad4 :: "nat \<Rightarrow> string" where
  "pad4 n = replicate (4 - length (digits_of_nat n)) (CHR ''0'') @ digits_of_nat n"

text \<open>
  \<^verbatim>\<open>datetime.strftime\<close> for the directives \<^verbatim>\<open>_to_strftime\<close> produces and \<^verbatim>\<open>%%\<close>; any
  other character pair is copied.
\<close>

fun strftime :: "string \<Rightarrow> datetime \<Rightarrow> string" where
  "strftime [] dt = []"
| "strftime [c] dt = [c]"
| "strftime (c # d # cs) dt =
     (if c \<noteq> CHR ''%'' then c # strftime (d # cs) dt
      else if d = CHR ''Y'' then pad4 (dt_year dt) @ strftime cs dt
      else if d = CHR ''y'' then pad2 (dt_year dt mod 100) @ strftime cs dt
      else if d = CHR ''m'' then pad2 (dt_month dt) @ strftime cs dt
      else if d = CHR ''d'' then pad2 (dt_day dt) @ strftime cs dt
      else if d = CHR ''H'' then pad2 (dt_hour dt) @ strftime cs dt
      else if d = CHR ''M'' then pad2 (dt_minute dt) @ strftime cs dt
      else if d = CHR ''S'' then pad2 (dt_second dt) @ strftime cs dt
      else if d = CHR ''%'' then CHR ''%'' # strftime cs dt
      else c # d # strftime cs dt)"

text \<open>The constructor \<^verbatim>\<open>datetime(y, m, d)\<close>, which raises \<^verbatim>\<open>ValueError\<close> on an invalid date.\<close>

definition is_leap :: "nat \<Rightarrow> bool" where
  "is_leap y = (y mod 4 = 0 \<and> (y mod 100 \<noteq> 0 \<or> y mod 400 = 0))"

definition days_in_month :: "nat \<Rightarrow> nat \<Rightarrow> nat" where
  "days_in_month y m =
     (if m = 2 then (if is_leap y then 29 else 28)
      else if m \<in> {4, 6, 9, 11} then 30 else 31)"

definition mk_datetime :: "nat \<Rightarrow> nat \<Rightarrow> nat \<Rightarrow> datetime option" where
  "mk_datetime y m d =
     (if 1 \<le> y \<and> y \<le> 9999 \<and> 1 \<le> m \<and> m \<le> 12 \<and> 1 \<le> d \<and> d \<le> days_in_month y m
      then Some \<lparr>dt_year = y, dt_month = m, dt_day = d, dt_hour = 0, dt_minute = 0, dt_second = 0\<rparr>
      else None)"

text \<open>\<^verbatim>\<open>_compact8_to_iso\<close>, with its pattern \<^verbatim>\<open>\d{8}\<close>.\<close>

definition compact8_to_iso :: "string \<Rightarrow> datetime option" where
  "compact8_to_iso s =
     (case re_fullmatch (reflags_of 0) (Rep 8 (Some 8) (Set [Digit])) s of
        None \<Rightarrow> None
      | Some m \<Rightarrow> mk_datetime (nat_of_digits (take 4 s)) (nat_of_digits (take 2 (drop 4 s)))
                    (nat_of_digits (drop 6 s)))"

text \<open>\<^verbatim>\<open>_ORDINAL_RX\<close>: \<^verbatim>\<open>(\b\d{1,2})(st|nd|rd|th)\b\<close>, IGNORECASE.\<close>

definition ORDINAL_RX :: rx where
  "ORDINAL_RX =
     Seq [Grp 1 (Seq [WordB, Rep 1 (Some 2) (Set [Digit])]),
          Grp 2 (Alts [Str ''st'', Str ''nd'', Str ''rd'', Str ''th'']), WordB]"

text \<open>The three CJK characters of \<^verbatim>\<open>_parse_one\<close>, as their UTF-8 bytes.\<close>

definition cjk_year :: string where "cjk_year = [CHR 0xE5, CHR 0xB9, CHR 0xB4]"
definition cjk_month :: string where "cjk_month = [CHR 0xE6, CHR 0x9C, CHR 0x88]"
definition cjk_day :: string where "cjk_day = [CHR 0xE6, CHR 0x97, CHR 0xA5]"

definition fallback_formats :: "string list" where
  "fallback_formats =
     [''%Y-%m-%d'', ''%Y/%m/%d'', ''%Y.%m.%d'', ''%d/%m/%Y'', ''%m/%d/%Y'', ''%d/%m/%y'',
      ''%m/%d/%y'', ''%d-%m-%Y'', ''%m-%d-%Y'', ''%d-%b-%Y'', ''%d-%B-%Y'', ''%b %d, %Y'',
      ''%B %d, %Y'']"

fun first_strptime :: "date_ext \<Rightarrow> string \<Rightarrow> string list \<Rightarrow> datetime option" where
  "first_strptime D token [] = None"
| "first_strptime D token (fmt # fmts) =
     (case strptime D token fmt of Some dt \<Rightarrow> Some dt | None \<Rightarrow> first_strptime D token fmts)"

text \<open>\<^verbatim>\<open>_parse_one\<close>. The day-first argument is \<^verbatim>\<open>Optional[bool]\<close>; \<open>None\<close> counts as false.\<close>

definition parse_one :: "date_ext \<Rightarrow> string \<Rightarrow> bool option \<Rightarrow> datetime option" where
  "parse_one D token0 dayfirst =
     (let token1 = re_sub_fn (reflags_of 2) ORDINAL_RX (\<lambda>m. grp m 1) token0;
          token = py_replace cjk_day [] (py_replace cjk_month ''-'' (py_replace cjk_year ''-'' token1));
          final = first_strptime D token fallback_formats;
          with_dateutil = (case dateutil_parse D of
                             None \<Rightarrow> final
                           | Some g \<Rightarrow> (case g token (dayfirst = Some True) of
                                          Some d \<Rightarrow> Some d | None \<Rightarrow> final))
      in case compact8_to_iso token of
           Some dt \<Rightarrow> Some dt
         | None \<Rightarrow>
             (case dateparser_parse D of
                None \<Rightarrow> with_dateutil
              | Some f \<Rightarrow> (case f token (dayfirst = Some True) of
                             Some d \<Rightarrow> Some d | None \<Rightarrow> with_dateutil)))"

text \<open>
  \<^verbatim>\<open>guess_dayfirst\<close>, with its two patterns
  \<^verbatim>\<open>\b(\d{1,2})[/-](\d{1,2})[/-](\d{2,4})\b\<close> and
  \<^verbatim>\<open>\b(13|14|15|1[6-9]|2[0-9]|3[01])\b\<close>. The loop carries the two counters.
\<close>

definition rx_abc :: rx where
  "rx_abc =
     Seq [WordB, Grp 1 (Rep 1 (Some 2) (Set [Digit])), Set [Ch (CHR ''/''), Ch (CHR ''-'')],
          Grp 2 (Rep 1 (Some 2) (Set [Digit])), Set [Ch (CHR ''/''), Ch (CHR ''-'')],
          Grp 3 (Rep 2 (Some 4) (Set [Digit])), WordB]"

definition rx_day_hint :: rx where
  "rx_day_hint =
     Seq [WordB,
          Grp 1 (Alts [Str ''13'', Str ''14'', Str ''15'',
                       Seq [Lit (CHR ''1''), Set [Rng (CHR ''6'') (CHR ''9'')]],
                       Seq [Lit (CHR ''2''), Set [Rng (CHR ''0'') (CHR ''9'')]],
                       Seq [Lit (CHR ''3''), Set [Ch (CHR ''0''), Ch (CHR ''1'')]]]),
          WordB]"

definition guess_step :: "nat \<times> nat \<Rightarrow> string \<Rightarrow> nat \<times> nat" where
  "guess_step acc s =
     (case re_search (reflags_of 0) rx_abc s of
        None \<Rightarrow> acc
      | Some m \<Rightarrow>
          (let a = nat_of_digits (grp m 1); b = nat_of_digits (grp m 2) in
           if a \<le> 12 \<and> b \<le> 12
           then (fst acc + 1,
                 if re_search (reflags_of 0) rx_day_hint s \<noteq> None then snd acc + 1 else snd acc)
           else acc))"

definition guess_dayfirst :: "string list \<Rightarrow> bool option" where
  "guess_dayfirst samples =
     (let (ambiguous_hits, dayfirst_votes) = foldl guess_step (0, 0) (take 200 samples) in
      if ambiguous_hits = 0 then None
      else if dayfirst_votes \<ge> max 1 (ambiguous_hits div 3) then Some True else None)"

text \<open>
  Dates as day numbers (the proleptic Gregorian calendar), for
  \<^verbatim>\<open>datetime(1899, 12, 30) + timedelta(days=n)\<close>; a fraction of a day becomes the time of
  day, fractions of a second dropped.
\<close>

definition days_from_civil :: "int \<Rightarrow> int \<Rightarrow> int \<Rightarrow> int" where
  "days_from_civil y m d =
     (let y1 = (if m \<le> 2 then y - 1 else y);
          era = y1 div 400;
          yoe = y1 - era * 400;
          doy = (153 * (if m > 2 then m - 3 else m + 9) + 2) div 5 + d - 1;
          doe = yoe * 365 + yoe div 4 - yoe div 100 + doy
      in era * 146097 + doe - 719468)"

definition civil_from_days :: "int \<Rightarrow> int \<times> int \<times> int" where
  "civil_from_days z0 =
     (let z = z0 + 719468;
          era = z div 146097;
          doe = z - era * 146097;
          yoe = (doe - doe div 1460 + doe div 36524 - doe div 146096) div 365;
          doy = doe - (365 * yoe + yoe div 4 - yoe div 100);
          mp = (5 * doy + 2) div 153;
          d = doy - (153 * mp + 2) div 5 + 1;
          m = (if mp < 10 then mp + 3 else mp - 9);
          y = yoe + era * 400
      in (if m \<le> 2 then y + 1 else y, m, d))"

definition serial_to_datetime :: "rat \<Rightarrow> datetime" where
  "serial_to_datetime n =
     (let days = \<lfloor>n\<rfloor>;
          secs = nat \<lfloor>(n - of_int days) * 86400\<rfloor>;
          (y, m, d) = civil_from_days (days_from_civil 1899 12 30 + days)
      in \<lparr>dt_year = nat y, dt_month = nat m, dt_day = nat d, dt_hour = secs div 3600,
          dt_minute = (secs mod 3600) div 60, dt_second = secs mod 60\<rparr>)"

text \<open>
  The names bound at module level in date\_normalizer.py: its imports
  (\<^verbatim>\<open>import re\<close>, \<^verbatim>\<open>from datetime import datetime\<close>,
  \<^verbatim>\<open>from typing import Optional, Tuple, Any\<close>, the two optional libraries) and its own
  definitions. A name used in a function body and bound neither there nor here nor
  among the builtins raises \<^verbatim>\<open>NameError\<close> when the line runs.
\<close>

definition date_normalizer_names :: "string list" where
  "date_normalizer_names =
     [''re'', ''datetime'', ''Optional'', ''Tuple'', ''Any'', ''dateparser'',
      ''_HAS_DATEPARSER'', ''du_parser'', ''_HAS_DATEUTIL'', ''DATE_TOKEN_RX'', ''_ORDINAL_RX'',
      ''_to_strftime'', ''_compact8_to_iso'', ''_parse_one'', ''guess_dayfirst'',
      ''normalize_date_text'', ''normalize_cell_as_whole'']"

text \<open>
  The body of the \<^verbatim>\<open>try\<close> in \<^verbatim>\<open>normalize_cell_as_whole\<close>:
  \<^verbatim>\<open>dt = base + timedelta(days=n); return dt.strftime(fmt), 1\<close>.
\<close>

definition excel_serial :: "rat \<Rightarrow> string \<Rightarrow> py_exn + string \<times> nat" where
  "excel_serial n fmt =
     (if ''timedelta'' \<notin> set date_normalizer_names then Inl (NameError ''timedelta'')
      else Inr (strftime fmt (serial_to_datetime n), 1))"

datatype py_value = PyNone | PyBool bool | PyInt int | PyFloat rat | PyStr string

definition py_str :: "date_ext \<Rightarrow> py_value \<Rightarrow> string" where
  "py_str D v =
     (case v of
        PyNone \<Rightarrow> ''None''
      | PyBool b \<Rightarrow> (if b then ''True'' else ''False'')
      | PyInt i \<Rightarrow> py_str_int i
      | PyFloat x \<Rightarrow> float_str D x
      | PyStr s \<Rightarrow> s)"

text \<open>
  \<^verbatim>\<open>normalize_cell_as_whole\<close>. \<open>serial\<close> is the numeric branch: it returns from inside
  the \<^verbatim>\<open>try\<close>, and \<^verbatim>\<open>except Exception: pass\<close> turns any exception there into falling
  through to the text branch. \<^verbatim>\<open>float(value)\<close>, which stands before the \<^verbatim>\<open>try\<close>, is taken
  to succeed: an integer beyond the range of a float, on which it raises
  \<^verbatim>\<open>OverflowError\<close>, is outside the model.
\<close>

definition numeric_value :: "py_value \<Rightarrow> rat option" where
  "numeric_value v = (case v of PyInt i \<Rightarrow> Some (of_int i) | PyFloat x \<Rightarrow> Some x | _ \<Rightarrow> None)"

definition normalize_cell_as_whole ::
  "date_ext \<Rightarrow> py_value \<Rightarrow> string \<Rightarrow> bool option \<Rightarrow> string \<times> nat" where
  "normalize_cell_as_whole D v out_fmt dayfirst =
     (let fmt = to_strftime out_fmt;
          serial = (case numeric_value v of
                      None \<Rightarrow> None
                    | Some n \<Rightarrow>
                        if 10000 \<le> n \<and> n \<le> 80000
                        then (case excel_serial n fmt of Inl e \<Rightarrow> None | Inr r \<Rightarrow> Some r)
                        else None)
      in case serial of
           Some r \<Rightarrow> r
         | None \<Rightarrow>
             (let s = (if v = PyNone then [] else py_str D v) in
              case parse_one D s dayfirst of
                None \<Rightarrow> (s, 0)
              | Some dt \<Rightarrow> (strftime fmt dt, 1)))"

section \<open>Regular-expression flags (regex\_executor.py)\<close>

text \<open>
  The flag constants of Python's \<^verbatim>\<open>re\<close> module, as the integers they are.
\<close>

definition re_IGNORECASE :: int where "re_IGNORECASE = 2"
definition re_MULTILINE :: int where "re_MULTILINE = 8"
definition re_DOTALL :: int where "re_DOTALL = 16"
definition re_VERBOSE :: int where "re_VERBOSE = 64"

text \<open>
  \<^verbatim>\<open>_compile_flags\<close>: the loop \<^verbatim>\<open>for ch in flags\<close> with its accumulator \<open>f\<close>,
  then the two places where the function falls back to \<^verbatim>\<open>re.IGNORECASE\<close>: the empty
  string on entry, and \<^verbatim>\<open>f or re.IGNORECASE\<close> on exit.
\<close>

fun compile_flags_loop :: "int \<Rightarrow> string \<Rightarrow> int" where
  "compile_flags_loop f [] = f"
| "compile_flags_loop f (ch # chs) =
     compile_flags_loop
       (if ch = CHR ''i'' then f OR re_IGNORECASE
        else if ch = CHR ''m'' then f OR re_MULTILINE
        else if ch = CHR ''s'' then f OR re_DOTALL
        else if ch = CHR ''x'' then f OR re_VERBOSE
        else f) chs"

definition compile_flags :: "string \<Rightarrow> int" where
  "compile_flags flags =
     (if flags = [] then re_IGNORECASE
      else (let f = compile_flags_loop 0 flags in if f = 0 then re_IGNORECASE else f))"

section \<open>Row filters (regex\_executor.py)\<close>

subsection \<open>Normalising a row filter\<close>

text \<open>
  \<^verbatim>\<open>sorted(headers, key=len, reverse=True)\<close>: longest first, headers of one length in
  the order they had.
\<close>

definition sorted_headers :: "string list \<Rightarrow> string list" where
  "sorted_headers headers = sort_key (\<lambda>c. - int (length c)) headers"

text \<open>
  \<^verbatim>\<open>(?<!`)(["\'])COL\1(?!`)\<close>, where \<^verbatim>\<open>COL\<close> is \<^verbatim>\<open>re.escape(col)\<close>: the header, character
  by character.
\<close>

definition rx_quoted_col :: "string \<Rightarrow> rx" where
  "rx_quoted_col col =
     Seq [NBehind [Ch btick], Grp 1 (Set [Ch dquote, Ch squote]), Str col, Bref 1,
          NAhead (Lit btick)]"

text \<open>
  \<^verbatim>\<open>(?<![`"\w])COL(?=\s*(?:\.str\b|\.astype\b|\.isin\b|\)|\]|\b(?:in|not\s+in)\b|==|!=|>=|<=|>|<))\<close>
\<close>

definition rx_bare_col :: "string \<Rightarrow> rx" where
  "rx_bare_col col =
     Seq [NBehind [Ch btick, Ch dquote, Word], Str col,
          Ahead (Seq [Star (Set [Space]),
            Alts [Seq [Str ''.str'', WordB], Seq [Str ''.astype'', WordB],
                  Seq [Str ''.isin'', WordB], Lit (CHR '')''), Lit (CHR '']''),
                  Seq [WordB, Alt (Str ''in'') (Seq [Str ''not'', Plus (Set [Space]), Str ''in'']),
                       WordB],
                  Str ''=='', Str ''!='', Str ''>='', Str ''<='', Str ''>'', Str ''<'']])]"

text \<open>\<^verbatim>\<open>(\.str\.(?:contains|match|fullmatch|replace)\(\s*)([\'\"])\<close>\<close>

definition rx_str_first_arg :: rx where
  "rx_str_first_arg =
     Seq [Grp 1 (Seq [Str ''.str.'',
                      Alts [Str ''contains'', Str ''match'', Str ''fullmatch'', Str ''replace''],
                      Lit (CHR ''(''), Star (Set [Space])]),
          Grp 2 (Set [Ch squote, Ch dquote])]"

text \<open>\<^verbatim>\<open>\.astype\(\s*str\s*\)\<close> and \<^verbatim>\<open>\.astype\(\s*["\']str["\']\s*\)\<close>\<close>

definition rx_astype_str :: rx where
  "rx_astype_str =
     Seq [Str ''.astype('', Star (Set [Space]), Str ''str'', Star (Set [Space]), Lit (CHR '')'')]"

definition rx_astype_qstr :: rx where
  "rx_astype_qstr =
     Seq [Str ''.astype('', Star (Set [Space]), Set [Ch dquote, Ch squote], Str ''str'',
          Set [Ch dquote, Ch squote], Star (Set [Space]), Lit (CHR '')'')]"

text \<open>
  \<^verbatim>\<open>(?P<prefix>\.str\.(?:startswith|endswith))\(\s*(?P<inner>[^)]*?)\)\<close>, the prefix
  being group 1 and the inner part group 2, and the two patterns that take a
  \<^verbatim>\<open>case=\<close> argument out of the inner part.
\<close>

definition rx_prefix_call :: rx where
  "rx_prefix_call =
     Seq [Grp 1 (Seq [Str ''.str.'', Alt (Str ''startswith'') (Str ''endswith'')]),
          Lit (CHR ''(''), Star (Set [Space]), Grp 2 (StarLazy (NSet [Ch (CHR '')'')])),
          Lit (CHR '')'')]"

definition rx_true_false :: rx where
  "rx_true_false = Alt (Str ''True'') (Str ''False'')"

definition rx_case_after :: rx where
  "rx_case_after =
     Seq [Star (Set [Space]), Lit (CHR '',''), Star (Set [Space]), Str ''case'',
          Star (Set [Space]), Lit (CHR ''=''), Star (Set [Space]), rx_true_false]"

definition rx_case_before :: rx where
  "rx_case_before =
     Seq [Str ''case'', Star (Set [Space]), Lit (CHR ''=''), Star (Set [Space]), rx_true_false,
          Star (Set [Space]), Lit (CHR '',''), Star (Set [Space])]"

definition strip_case_for_prefix :: "rmatch \<Rightarrow> string" where
  "strip_case_for_prefix m =
     (let inner = grp m 2;
          inner2 = re_sub_fn (reflags_of 0) rx_case_after (\<lambda>_. []) inner;
          inner3 = re_sub_fn (reflags_of 0) rx_case_before (\<lambda>_. []) inner2
      in grp m 1 @ ''('' @ inner3 @ '')'')"

text \<open>
  The two loops over the headers. The replacement \<^verbatim>\<open>f'`{col}`'\<close> is a string, so
  \<^verbatim>\<open>re.sub\<close> reads it as a template: the loop stops with \<^verbatim>\<open>re.error\<close> at the first
  header the template parser refuses.
\<close>

fun sub_headers :: "(string \<Rightarrow> rx) \<Rightarrow> string list \<Rightarrow> string \<Rightarrow> py_exn + string" where
  "sub_headers mk [] q = Inr q"
| "sub_headers mk (col # cols) q =
     (case re_sub (reflags_of 0) (mk col) ([btick] @ col @ [btick]) q of
        None \<Rightarrow> Inl ReError
      | Some q' \<Rightarrow> sub_headers mk cols q')"

text \<open>
  \<^verbatim>\<open>_normalize_row_filter\<close>. The template \<^verbatim>\<open>\1r\2\<close> of the third step is written as
  the function it denotes; the other replacements have no backslash and are literal.
\<close>

definition normalize_row_filter :: "string \<Rightarrow> string list \<Rightarrow> py_exn + string" where
  "normalize_row_filter query headers =
     (if query = [] then Inr query
      else case sub_headers rx_quoted_col (sorted_headers headers) query of
        Inl e \<Rightarrow> Inl e
      | Inr q1 \<Rightarrow>
          (case sub_headers rx_bare_col (sorted_headers headers) q1 of
             Inl e \<Rightarrow> Inl e
           | Inr q2 \<Rightarrow>
               (let q3 = re_sub_fn (reflags_of 0) rx_str_first_arg
                           (\<lambda>m. grp m 1 @ ''r'' @ grp m 2) q2;
                    q4 = re_sub_fn (reflags_of 0) rx_astype_str (\<lambda>_. ''.astype('' @ [squote] @ ''string'' @ [squote] @ '')'') q3;
                    q5 = re_sub_fn (reflags_of 0) rx_astype_qstr (\<lambda>_. ''.astype('' @ [squote] @ ''string'' @ [squote] @ '')'') q4
                in Inr (re_sub_fn (reflags_of 0) rx_prefix_call strip_case_for_prefix q5))))"

subsection \<open>Masks\<close>

definition all_true :: "dataframe \<Rightarrow> bool list" where
  "all_true df = replicate (df_len df) True"

definition all_false :: "dataframe \<Rightarrow> bool list" where
  "all_false df = replicate (df_len df) False"

definition mask_and :: "bool list \<Rightarrow> bool list \<Rightarrow> bool list" where
  "mask_and a b = map2 (\<and>) a b"

definition mask_or :: "bool list \<Rightarrow> bool list \<Rightarrow> bool list" where
  "mask_or a b = map2 (\<or>) a b"

text \<open>\<^verbatim>\<open>int(mask.sum())\<close>\<close>

definition mask_sum :: "bool list \<Rightarrow> nat" where
  "mask_sum m = length (filter id m)"

text \<open>\<^verbatim>\<open>df.index.to_series().isin(idx)\<close>\<close>

definition isin_mask :: "dataframe \<Rightarrow> int list \<Rightarrow> bool list" where
  "isin_mask df idx = map (\<lambda>l. l \<in> set idx) (df_index df)"

text \<open>\<^verbatim>\<open>list(df.index[mask])\<close>: the labels of the rows the mask selects, in row order.\<close>

definition index_where :: "dataframe \<Rightarrow> bool list \<Rightarrow> int list" where
  "index_where df m = map fst (filter snd (zip (df_index df) m))"

text \<open>The inner function \<^verbatim>\<open>_and\<close> of \<^verbatim>\<open>_mask_from_clauses\<close>.\<close>

definition and_acc :: "bool list option \<Rightarrow> bool list \<Rightarrow> bool list option" where
  "and_acc acc cur = (case acc of None \<Rightarrow> Some cur | Some a \<Rightarrow> Some (mask_and a cur))"

subsection \<open>The clause matcher\<close>

text \<open>\<^verbatim>\<open>`([^`]+)`\s*==\s*([\'"])(.*?)\2\<close>\<close>

definition rx_eq_clause :: rx where
  "rx_eq_clause =
     Seq [Lit btick, Grp 1 (Plus (NSet [Ch btick])), Lit btick, Star (Set [Space]), Str ''=='',
          Star (Set [Space]), Grp 2 (Set [Ch squote, Ch dquote]), Grp 3 (StarLazy Dot), Bref 2]"

text \<open>\<^verbatim>\<open>`([^`]+)`\s*(>=|<=|>|<)\s*([0-9]+(?:\.[0-9]+)?)\<close>\<close>

definition rx_num_clause :: rx where
  "rx_num_clause =
     Seq [Lit btick, Grp 1 (Plus (NSet [Ch btick])), Lit btick, Star (Set [Space]),
          Grp 2 (Alts [Str ''>='', Str ''<='', Str ''>'', Str ''<'']), Star (Set [Space]),
          Grp 3 (Seq [Plus (Set [Rng (CHR ''0'') (CHR ''9'')]),
                      Opt (Seq [Lit (CHR ''.''), Plus (Set [Rng (CHR ''0'') (CHR ''9'')])])])]"

text \<open>
  The optional \<^verbatim>\<open>(?:\.astype\(\s*(?:str|["\'](?:str|string)["\'])\s*\))?\<close> before
  \<^verbatim>\<open>.str\<close>.
\<close>

definition rx_opt_astype :: rx where
  "rx_opt_astype =
     Opt (Seq [Str ''.astype('', Star (Set [Space]),
               Alt (Str ''str'')
                   (Seq [Set [Ch dquote, Ch squote], Alt (Str ''str'') (Str ''string''),
                         Set [Ch dquote, Ch squote]]),
               Star (Set [Space]), Lit (CHR '')'')])"

definition rx_str_ops :: rx where
  "rx_str_ops =
     Alts [Str ''contains'', Str ''match'', Str ''fullmatch'', Str ''startswith'', Str ''endswith'']"

text \<open>
  \<^verbatim>\<open>str_op_pat\<close>, compiled with \<^verbatim>\<open>re.I\<close>. Its named groups by number: \<open>col\<close> 1, \<open>op\<close> 2,
  \<open>q\<close> 3, \<open>pat\<close> 4, \<open>case\<close> 5, \<open>na\<close> 6.
\<close>

definition str_op_pat :: rx where
  "str_op_pat =
     Seq [Lit btick, Grp 1 (Plus (NSet [Ch btick])), Lit btick, Star (Set [Space]),
          rx_opt_astype, Star (Set [Space]),
          Str ''.str.'', Grp 2 rx_str_ops, Lit (CHR ''(''),
          Star (Set [Space]), Opt (Lit (CHR ''r'')), Grp 3 (Set [Ch dquote, Ch squote]),
          Grp 4 (StarLazy Dot), Bref 3,
          Opt (Seq [Star (Set [Space]), Lit (CHR '',''), Star (Set [Space]), Str ''case'',
                    Star (Set [Space]), Lit (CHR ''=''), Star (Set [Space]), Grp 5 rx_true_false]),
          Opt (Seq [Star (Set [Space]), Lit (CHR '',''), Star (Set [Space]), Str ''na'',
                    Star (Set [Space]), Lit (CHR ''=''), Star (Set [Space]), Grp 6 rx_true_false]),
          Star (Set [Space]), Lit (CHR '')'')]"

text \<open>
  One equality clause: \<^verbatim>\<open>s.str.casefold().eq(val.casefold()).fillna(False)\<close>. A missing
  cell compares as NA, which \<^verbatim>\<open>fillna\<close> makes false.
\<close>

definition eq_ci_mask :: "cell list \<Rightarrow> string \<Rightarrow> bool list" where
  "eq_ci_mask cells val =
     map (\<lambda>c. case c of None \<Rightarrow> False | Some t \<Rightarrow> py_casefold t = py_casefold val) cells"

definition eq_step :: "dataframe \<Rightarrow> bool list option \<Rightarrow> rmatch \<Rightarrow> bool list option" where
  "eq_step df acc m =
     (case df_col df (grp m 1) of
        None \<Rightarrow> acc
      | Some cells \<Rightarrow> and_acc acc (eq_ci_mask cells (grp m 3)))"

text \<open>One numeric clause: \<^verbatim>\<open>s.notna() & (s op float(val))\<close> on the coerced column.\<close>

definition num_cmp :: "string \<Rightarrow> rat \<Rightarrow> rat \<Rightarrow> bool" where
  "num_cmp op x y =
     (if op = ''>='' then x \<ge> y else if op = ''<='' then x \<le> y
      else if op = ''>'' then x > y else x < y)"

definition num_step :: "ext \<Rightarrow> dataframe \<Rightarrow> bool list option \<Rightarrow> rmatch \<Rightarrow> bool list option" where
  "num_step E df acc m =
     (case df_col df (grp m 1) of
        None \<Rightarrow> acc
      | Some cells \<Rightarrow>
          and_acc acc
            (map (\<lambda>c. case pd_to_numeric E c of
                         None \<Rightarrow> False
                       | Some x \<Rightarrow> num_cmp (grp m 2) x (py_float E (grp m 3))) cells))"

text \<open>
  One \<^verbatim>\<open>.str\<close> clause. \<^verbatim>\<open>contains\<close>, \<^verbatim>\<open>match\<close> and \<^verbatim>\<open>fullmatch\<close> compile the literal as
  a pattern, with \<^verbatim>\<open>re.IGNORECASE\<close> unless \<^verbatim>\<open>case=True\<close> was written; when that raises,
  the clause is skipped. A missing cell gives the value of \<^verbatim>\<open>na\<close>.
\<close>

definition str_cells :: "bool \<Rightarrow> (string \<Rightarrow> bool) \<Rightarrow> cell list \<Rightarrow> bool list" where
  "str_cells na f cells = map (\<lambda>c. case c of None \<Rightarrow> na | Some t \<Rightarrow> f t) cells"

definition str_step :: "ext \<Rightarrow> dataframe \<Rightarrow> bool list option \<Rightarrow> rmatch \<Rightarrow> bool list option" where
  "str_step E df acc m =
     (let col = grp m 1; op = py_lower (grp m 2); pat = grp m 4;
          case_s = py_lower (grp m 5); na_s = py_lower (grp m 6)
      in case df_col df col of
           None \<Rightarrow> acc
         | Some cells \<Rightarrow>
             (let cs = (if case_s = [] then False else case_s = ''true'');
                  na = (if na_s = [] then False else na_s = ''true'');
                  fl = (if cs then 0 else re_IGNORECASE)
              in if op = ''contains'' then
                   (case re_compile E pat fl of
                      None \<Rightarrow> acc
                    | Some r \<Rightarrow> and_acc acc
                        (str_cells na (\<lambda>t. re_search (reflags_of fl) r t \<noteq> None) cells))
                 else if op = ''match'' then
                   (case re_compile E pat fl of
                      None \<Rightarrow> acc
                    | Some r \<Rightarrow> and_acc acc
                        (str_cells na (\<lambda>t. re_match (reflags_of fl) r t \<noteq> None) cells))
                 else if op = ''fullmatch'' then
                   (case re_compile E pat fl of
                      None \<Rightarrow> acc
                    | Some r \<Rightarrow> and_acc acc
                        (str_cells na (\<lambda>t. re_fullmatch (reflags_of fl) r t \<noteq> None) cells))
                 else if op = ''startswith'' then
                   (if cs then and_acc acc (str_cells na (\<lambda>t. py_startswith t pat) cells)
                    else and_acc acc
                           (str_cells na (\<lambda>t. py_startswith (py_lower t) (py_lower pat)) cells))
                 else
                   (if cs then and_acc acc (str_cells na (\<lambda>t. py_endswith t pat) cells)
                    else and_acc acc
                           (str_cells na (\<lambda>t. py_endswith (py_lower t) (py_lower pat)) cells))))"

text \<open>\<^verbatim>\<open>_mask_from_clauses\<close>: the three loops in turn, on one accumulator.\<close>

definition mask_from_clauses :: "ext \<Rightarrow> dataframe \<Rightarrow> string \<Rightarrow> bool list option" where
  "mask_from_clauses E df q =
     (let m1 = foldl (eq_step df) None (re_finditer (reflags_of 0) rx_eq_clause q);
          m2 = foldl (num_step E df) m1 (re_finditer (reflags_of 0) rx_num_clause q)
      in foldl (str_step E df) m2 (re_finditer (reflags_of re_IGNORECASE) str_op_pat q))"

text \<open>\<^verbatim>\<open>_has_string_equality\<close>, on \<^verbatim>\<open>`[^`]+`\s*==\s*([\'"])(.*?)\1\<close>.\<close>

definition rx_has_eq :: rx where
  "rx_has_eq =
     Seq [Lit btick, Plus (NSet [Ch btick]), Lit btick, Star (Set [Space]), Str ''=='',
          Star (Set [Space]), Grp 1 (Set [Ch squote, Ch dquote]), Grp 2 (StarLazy Dot), Bref 1]"

definition has_string_equality :: "string \<Rightarrow> bool" where
  "has_string_equality q = (re_search (reflags_of 0) rx_has_eq q \<noteq> None)"

subsection \<open>Splitting at the top-level \<^verbatim>\<open>or\<close>\<close>

text \<open>
  \<^verbatim>\<open>re.match(r'(?i)\bor\b', expr[i:])\<close> and the \<^verbatim>\<open>m.end()\<close> of its match. The pattern is
  tried on the slice that starts at the current character, so the first \<^verbatim>\<open>\b\<close> looks
  at the start of a string, whatever stands before the slice in the expression.
\<close>

definition rx_word_or :: rx where
  "rx_word_or = Seq [WordB, Str ''or'', WordB]"

definition match_or :: "string \<Rightarrow> nat option" where
  "match_or s = map_option (\<lambda>m. length (m_text m)) (re_match (reflags_of re_IGNORECASE) rx_word_or s)"

lemma match_or_end: "match_or s = Some k \<Longrightarrow> k = 2 \<and> 2 \<le> length s"
proof (cases s)
  case Nil
  then show "match_or s = Some k \<Longrightarrow> k = 2 \<and> 2 \<le> length s"
    by (simp add: match_or_def re_match_def rx_word_or_def Seq_def Str_def opt_word_def
          next_char_def)
next
  case (Cons a as)
  then show "match_or s = Some k \<Longrightarrow> k = 2 \<and> 2 \<le> length s"
    by (cases as)
       (auto simp: match_or_def re_match_def rx_word_or_def Seq_def Str_def opt_word_def
          next_char_def mk_match_def split: if_splits list.splits)
qed

text \<open>
  The loop of \<^verbatim>\<open>_split_top_level\<close> on the rest of the expression \<^verbatim>\<open>expr[i:]\<close>, with its
  variables \<^verbatim>\<open>depth\<close>, \<^verbatim>\<open>in_s\<close>, \<^verbatim>\<open>in_d\<close>, \<^verbatim>\<open>buf\<close> and \<^verbatim>\<open>out\<close>.
\<close>

function split_loop ::
  "nat \<Rightarrow> bool \<Rightarrow> bool \<Rightarrow> string \<Rightarrow> string list \<Rightarrow> string \<Rightarrow> string list" where
  "split_loop depth in_s in_d buf out [] = out @ [py_strip buf]"
| "split_loop depth in_s in_d buf out (ch # cs) =
     (if ch = bslash \<and> cs \<noteq> [] then split_loop depth in_s in_d (buf @ [ch, hd cs]) out (tl cs)
      else if \<not> in_d \<and> ch = squote then split_loop depth (\<not> in_s) in_d (buf @ [ch]) out cs
      else if \<not> in_s \<and> ch = dquote then split_loop depth in_s (\<not> in_d) (buf @ [ch]) out cs
      else if \<not> in_s \<and> \<not> in_d then
        (let depth' = (if ch = CHR ''('' then depth + 1
                       else if ch = CHR '')'' \<and> 0 < depth then depth - 1 else depth)
         in case match_or (ch # cs) of
              None \<Rightarrow> split_loop depth' in_s in_d (buf @ [ch]) out cs
            | Some k \<Rightarrow>
                if depth' = 0
                then split_loop depth' in_s in_d [] (out @ [py_strip buf]) (drop k (ch # cs))
                else split_loop depth' in_s in_d (buf @ [ch]) out cs)
      else split_loop depth in_s in_d (buf @ [ch]) out cs)"
  by pat_completeness auto
termination
  by (relation "measure (\<lambda>(depth, in_s, in_d, buf, out, s). length s)")
     (auto dest: match_or_end)

definition split_top_level :: "string \<Rightarrow> string list" where
  "split_top_level expr = filter (\<lambda>p. p \<noteq> []) (split_loop 0 False False [] [] expr)"

subsection \<open>Evaluating one expression\<close>

text \<open>\<^verbatim>\<open>(?i)\band\b\<close> and \<^verbatim>\<open>(?i)\bor\b\<close> of the rewrite to \<^verbatim>\<open>&\<close> and \<^verbatim>\<open>|\<close>.\<close>

definition rx_word_and :: rx where
  "rx_word_and = Seq [WordB, Str ''and'', WordB]"

definition rewrite_and_or :: "string \<Rightarrow> string" where
  "rewrite_and_or q =
     re_sub_fn (reflags_of re_IGNORECASE) rx_word_or (\<lambda>_. ''|'')
       (re_sub_fn (reflags_of re_IGNORECASE) rx_word_and (\<lambda>_. ''&'') q)"

text \<open>
  \<^verbatim>\<open>_eval_basic_query\<close>: the mask, the tag of the path taken, and the query used. An
  exception anywhere in a \<^verbatim>\<open>try\<close> block leads to the next tier; the query engine is the
  only call there that can raise.
\<close>

definition eval_basic_query :: "ext \<Rightarrow> dataframe \<Rightarrow> string \<Rightarrow> bool list \<times> string \<times> string" where
  "eval_basic_query E df q =
     (case pd_query E df q of
        Some idx \<Rightarrow>
          (let mask = isin_mask df idx in
           if mask_sum mask = 0 \<and> has_string_equality q then
             (case mask_from_clauses E df q of
                Some m_ci \<Rightarrow> (m_ci, ''query_zero_and_fallback'', q)
              | None \<Rightarrow> (mask, ''query'', q))
           else (mask, ''query'', q))
      | None \<Rightarrow>
          (let rew = rewrite_and_or q in
           case pd_query E df rew of
             Some idx \<Rightarrow>
               (let mask = isin_mask df idx in
                if mask_sum mask = 0 \<and> has_string_equality q then
                  (case mask_from_clauses E df q of
                     Some m_ci \<Rightarrow> (m_ci, ''query_rewrite_zero_and_fallback'', rew)
                   | None \<Rightarrow> (mask, ''query_rewrite'', rew))
                else (mask, ''query_rewrite'', rew))
           | None \<Rightarrow>
               (case mask_from_clauses E df q of
                  Some m \<Rightarrow> (m, ''fallback_and'', q)
                | None \<Rightarrow> (all_true df, ''all_false'', q))))"

subsection \<open>Row numbers\<close>

text \<open>\<^verbatim>\<open>_ROWNUM_RE\<close>: \<^verbatim>\<open>(?i)(?:`?__rownum__`?|row(?:_?number)?|index)\s*==\s*(\d+)\<close>\<close>

definition ROWNUM_RE :: rx where
  "ROWNUM_RE =
     Seq [Alts [Seq [Opt (Lit btick), Str ''__rownum__'', Opt (Lit btick)],
                Seq [Str ''row'', Opt (Seq [Opt (Lit (CHR ''_'')), Str ''number''])],
                Str ''index''],
          Star (Set [Space]), Str ''=='', Star (Set [Space]), Grp 1 (Plus (Set [Digit]))]"

text \<open>
  \<^verbatim>\<open>_remove_rownum_clauses\<close>: every clause becomes \<^verbatim>\<open>" True "\<close> and its number is
  collected, in the order of the clauses.
\<close>

definition remove_rownum_clauses :: "string \<Rightarrow> string \<times> int list" where
  "remove_rownum_clauses expr =
     (re_sub_fn (reflags_of re_IGNORECASE) ROWNUM_RE (\<lambda>_. '' True '') expr,
      map (\<lambda>m. int (nat_of_digits (grp m 1))) (re_finditer (reflags_of re_IGNORECASE) ROWNUM_RE expr))"

text \<open>
  The two loops that turn row numbers into labels: \<^verbatim>\<open>pos = n - 1\<close>, kept when
  \<^verbatim>\<open>0 <= pos < len(labels)\<close>.
\<close>

definition pick_rows :: "int list \<Rightarrow> int list \<Rightarrow> int list" where
  "pick_rows labels rownums =
     concat (map (\<lambda>n. let pos = n - 1 in
                        if 0 \<le> pos \<and> pos < int (length labels) then [labels ! nat pos] else [])
                 rownums)"

definition picks_mask :: "dataframe \<Rightarrow> int list \<Rightarrow> bool list" where
  "picks_mask df picks = (if picks \<noteq> [] then isin_mask df picks else all_false df)"

text \<open>\<^verbatim>\<open>_mask_group_with_rownum\<close>: the mask of one group and the tag of its path.\<close>

definition mask_group_with_rownum :: "ext \<Rightarrow> dataframe \<Rightarrow> string \<Rightarrow> bool list \<times> string" where
  "mask_group_with_rownum E df group_expr =
     (let (expr_wo, rownums) = remove_rownum_clauses group_expr;
          expr_wo_rn = (if py_strip expr_wo = [] then ''True'' else py_strip expr_wo);
          (base_mask, path, used) = eval_basic_query E df expr_wo_rn
      in if rownums = [] then (base_mask, path)
         else if py_lower expr_wo_rn = ''true'' then
           (picks_mask df (pick_rows (df_index df) rownums), ''rownum_only'')
         else
           (picks_mask df (pick_rows (index_where df base_mask) rownums), path @ ''+rownum''))"

text \<open>\<^verbatim>\<open>_mask_from_query_with_rownum\<close>: the groups are evaluated in turn and or-ed.\<close>

definition or_acc :: "bool list option \<Rightarrow> bool list \<Rightarrow> bool list option" where
  "or_acc acc m = (case acc of None \<Rightarrow> Some m | Some a \<Rightarrow> Some (mask_or a m))"

definition or_groups :: "string \<Rightarrow> string list" where
  "or_groups nq = (if split_top_level nq = [] then [nq] else split_top_level nq)"

definition mask_from_query_with_rownum :: "ext \<Rightarrow> dataframe \<Rightarrow> string \<Rightarrow> bool list" where
  "mask_from_query_with_rownum E df nq =
     (case foldl (\<lambda>acc part. or_acc acc (fst (mask_group_with_rownum E df part))) None
             (or_groups nq) of
        None \<Rightarrow> all_true df
      | Some acc \<Rightarrow> acc)"

subsection \<open>The mask of a row filter\<close>

text \<open>\<^verbatim>\<open>\s*`?([A-Za-z0-9_ ]+)`?\s*==\s*['"](.+?)['"]\s*\<close>, for the soft-recall guess.\<close>

definition rx_single_eq :: rx where
  "rx_single_eq =
     Seq [Star (Set [Space]), Opt (Lit btick),
          Grp 1 (Plus (Set [Rng (CHR ''A'') (CHR ''Z''), Rng (CHR ''a'') (CHR ''z''),
                            Rng (CHR ''0'') (CHR ''9''), Ch (CHR ''_''), Ch (CHR '' '')])),
          Opt (Lit btick), Star (Set [Space]), Str ''=='', Star (Set [Space]),
          Set [Ch squote, Ch dquote], Grp 2 (PlusLazy Dot), Set [Ch squote, Ch dquote],
          Star (Set [Space])]"

text \<open>
  \<^verbatim>\<open>_ensure_mask_from_query\<close>. The filter is an optional string; the normalisation
  can raise, and nothing catches that here.
\<close>

definition ensure_mask_from_query :: "ext \<Rightarrow> dataframe \<Rightarrow> string option \<Rightarrow> py_exn + bool list" where
  "ensure_mask_from_query E df query =
     (case query of
        None \<Rightarrow> Inr (all_true df)
      | Some qs \<Rightarrow>
          if qs = [] \<or> py_strip qs = [] then Inr (all_true df)
          else case normalize_row_filter qs (df_columns df) of
            Inl e \<Rightarrow> Inl e
          | Inr nq \<Rightarrow>
              (let mask = mask_from_query_with_rownum E df nq in
               if mask_sum mask = 0 then
                 (case re_fullmatch (reflags_of 0) rx_single_eq qs of
                    None \<Rightarrow> Inr mask
                  | Some m \<Rightarrow>
                      (case df_col df (py_strip (grp m 1)) of
                         None \<Rightarrow> Inr mask
                       | Some cells \<Rightarrow> Inr (eq_ci_mask cells (grp m 2))))
               else Inr mask))"

section \<open>Executing a plan (regex\_executor.py)\<close>

subsection \<open>Columns\<close>

text \<open>\<^verbatim>\<open>text_columns\<close> and \<^verbatim>\<open>_auto_columns\<close>. A list is false in a test when it is empty.\<close>

definition text_columns :: "dataframe \<Rightarrow> string list" where
  "text_columns df = map col_name (filter col_textual (df_cols df))"

definition auto_columns :: "dataframe \<Rightarrow> string \<Rightarrow> string \<Rightarrow> string list option \<Rightarrow> string list" where
  "auto_columns df intent pattern columns =
     (case columns of
        Some cs \<Rightarrow>
          if cs \<noteq> [] then cs
          else if py_lower intent = ''replace'' \<and> pattern = ''^.*$'' then df_columns df
          else text_columns df
      | None \<Rightarrow>
          if py_lower intent = ''replace'' \<and> pattern = ''^.*$'' then df_columns df
          else text_columns df)"

subsection \<open>The pattern shown for a row filter\<close>

text \<open>\<^verbatim>\<open>_MATCH_ALL_RE\<close>: \<^verbatim>\<open>^\s*\^?\.\*\$?\s*$\<close>\<close>

definition MATCH_ALL_RE :: rx where
  "MATCH_ALL_RE =
     Seq [Bol, Star (Set [Space]), Opt (Lit (CHR ''^'')), Lit (CHR ''.''), Lit (CHR ''*''),
          Opt (Lit (CHR ''$'')), Star (Set [Space]), Eol]"

definition is_match_all :: "string \<Rightarrow> bool" where
  "is_match_all p = (re_match (reflags_of 0) MATCH_ALL_RE p \<noteq> None)"

text \<open>
  \<^verbatim>\<open>_loose_token_regex\<close>: in the escaped token, a backslash followed by white space
  (\<^verbatim>\<open>\\\s+\<close>) becomes \<^verbatim>\<open>[-_.:/\s]*\<close>.
\<close>

definition loose_token_regex :: "string \<Rightarrow> string" where
  "loose_token_regex token =
     re_sub_fn (reflags_of 0) (Seq [Lit bslash, Plus (Set [Space])])
       (\<lambda>_. ''[-_.:/'' @ [bslash] @ ''s]*'') (re_escape token)"

text \<open>
  The first pattern of \<^verbatim>\<open>_display_regex_and_columns_from_row_filter\<close>,
  \<^verbatim>\<open>`([^`]+)`\s*(?:\.astype\(...\))?\s*\.str\.(contains|...|endswith)\(\s*([\'"])(.*?)\2.*?\)\<close>.
  Its groups are the column 1, the operation 2, the quote 3 and the value 4; the
  back-reference after the value is \<^verbatim>\<open>\2\<close>, the operation.
\<close>

definition rx_display_str :: rx where
  "rx_display_str =
     Seq [Lit btick, Grp 1 (Plus (NSet [Ch btick])), Lit btick, Star (Set [Space]),
          rx_opt_astype, Star (Set [Space]),
          Str ''.str.'', Grp 2 rx_str_ops, Lit (CHR ''(''),
          Star (Set [Space]), Grp 3 (Set [Ch squote, Ch dquote]), Grp 4 (StarLazy Dot), Bref 2,
          StarLazy Dot, Lit (CHR '')'')]"

text \<open>\<^verbatim>\<open>`([^`]+)`\s*(?:>=|<=|>|<)\s*([0-9]+(?:\.[0-9]+)?)\<close>\<close>

definition rx_display_num :: rx where
  "rx_display_num =
     Seq [Lit btick, Grp 1 (Plus (NSet [Ch btick])), Lit btick, Star (Set [Space]),
          Alts [Str ''>='', Str ''<='', Str ''>'', Str ''<''], Star (Set [Space]),
          Grp 2 (Seq [Plus (Set [Rng (CHR ''0'') (CHR ''9'')]),
                      Opt (Seq [Lit (CHR ''.''), Plus (Set [Rng (CHR ''0'') (CHR ''9'')])])])]"

definition str_token :: "rmatch \<Rightarrow> string list" where
  "str_token m =
     (let op = grp m 2; val = grp m 4 in
      if val = [] then []
      else if op = ''startswith'' then [''^'' @ re_escape val]
      else if op = ''endswith'' then [re_escape val @ ''$'']
      else if op = ''match'' \<or> op = ''fullmatch'' then [val]
      else [loose_token_regex val])"

definition eq_token :: "rmatch \<Rightarrow> string list" where
  "eq_token m = (if grp m 3 = [] then [] else [re_escape (grp m 3)])"

text \<open>\<^verbatim>\<open>sep.join(xs)\<close>, and a list without its repetitions, first occurrences kept.\<close>

fun py_join :: "string \<Rightarrow> string list \<Rightarrow> string" where
  "py_join sep [] = []"
| "py_join sep [x] = x"
| "py_join sep (x # y # ys) = x @ sep @ py_join sep (y # ys)"

definition dedup :: "string list \<Rightarrow> string list" where
  "dedup xs = rev (remdups (rev xs))"

text \<open>
  \<^verbatim>\<open>_display_regex_and_columns_from_row_filter\<close>: the tokens of the \<^verbatim>\<open>.str\<close> clauses, then
  those of the equalities; the columns of the \<^verbatim>\<open>.str\<close> clauses, the equalities and
  the numeric comparisons.
\<close>

definition display_regex_and_columns_from_row_filter ::
  "string option \<Rightarrow> string option \<times> string list" where
  "display_regex_and_columns_from_row_filter row_filter =
     (case row_filter of
        None \<Rightarrow> (None, [])
      | Some q \<Rightarrow>
          if q = [] then (None, [])
          else
            (let ms1 = re_finditer (reflags_of 0) rx_display_str q;
                 ms2 = re_finditer (reflags_of 0) rx_eq_clause q;
                 ms3 = re_finditer (reflags_of 0) rx_display_num q;
                 tokens = concat (map str_token ms1) @ concat (map eq_token ms2);
                 cols = dedup (map (\<lambda>m. grp m 1) ms1 @ map (\<lambda>m. grp m 1) ms2
                               @ map (\<lambda>m. grp m 1) ms3)
             in if tokens \<noteq> [] then (Some (''(?:'' @ py_join ''|'' tokens @ '')''), cols)
                else (None, cols)))"

subsection \<open>The payload\<close>

text \<open>
  The dictionary \<^verbatim>\<open>execute_plan\<close> returns with the dataset, one field per key.
  \<open>p_total\<close> is \<^verbatim>\<open>stats.total_matches\<close> of a find and \<^verbatim>\<open>replacements\<close> of a replace,
  \<open>p_per_column\<close> lists the assignments to \<^verbatim>\<open>per_col\<close> in their order, and
  \<open>p_display_columns\<close> is present for a replace only. The keys \<^verbatim>\<open>examples\<close> and \<^verbatim>\<open>head\<close>
  (the highlighted HTML and the first rows as dictionaries) are left out, as are
  \<^verbatim>\<open>columns\<close> and \<^verbatim>\<open>stats.rows_with_hits\<close>, which repeat \<open>p_columns_applied\<close> and
  \<open>p_result_rows_count\<close>.
\<close>

record payload =
  p_mode :: string
  p_regex :: string
  p_regex_source :: string
  p_display_regex :: "string option"
  p_display_regex_source :: "string option"
  p_display_columns :: "string list option"
  p_flags :: string
  p_columns_applied :: "string list"
  p_row_filter :: "string option"
  p_row_filter_normalized :: "string option"
  p_mask_row_indices :: "int list"
  p_total :: nat
  p_per_column :: "(string \<times> nat) list"
  p_changed_row_indices :: "int list"
  p_head_hit_row_indices :: "int list"
  p_result_rows_description :: string
  p_result_rows_count :: nat
  p_result_rows_indices :: "int list"

definition desc_filter_only :: string where
  "desc_filter_only = ''Result rows = rows where row_filter is true.''"

definition desc_filter_and_pattern :: string where
  "desc_filter_and_pattern =
     ''Result rows = rows where row_filter is true AND at least one of the selected columns matches the pattern.''"

subsection \<open>Counting and replacing in a column\<close>

text \<open>
  \<^verbatim>\<open>ser.str.count(rx).fillna(0)\<close> on the rows of the mask: the number of matches in each
  cell, 0 for a missing one; the cells of the other rows are not in the series, and
  count 0 here.
\<close>

definition count_cells :: "reflags \<Rightarrow> rx \<Rightarrow> bool list \<Rightarrow> cell list \<Rightarrow> nat list" where
  "count_cells fl r msk cells =
     map2 (\<lambda>b c. if b then (case c of None \<Rightarrow> 0 | Some s \<Rightarrow> length (re_finditer fl r s)) else 0)
          msk cells"

text \<open>The labels of \<^verbatim>\<open>counts[counts > 0].index\<close>.\<close>

definition hit_labels :: "dataframe \<Rightarrow> nat list \<Rightarrow> int list" where
  "hit_labels df counts = map fst (filter (\<lambda>(l, n). 0 < n) (zip (df_index df) counts))"

text \<open>
  \<^verbatim>\<open>s_mask.str.replace(rx_replace, rep, regex=True)\<close> written back with
  \<^verbatim>\<open>col_all.loc[mask] = ...\<close>: \<^verbatim>\<open>rx_replace.sub(rep, s)\<close> in each cell of the mask that is
  not missing; a missing cell stays missing. \<open>None\<close> is the \<^verbatim>\<open>re.error\<close> of a replacement
  the template parser refuses.
\<close>

fun replace_cells :: "reflags \<Rightarrow> rx \<Rightarrow> string \<Rightarrow> bool list \<Rightarrow> cell list \<Rightarrow> cell list option" where
  "replace_cells fl r rep (b # bs) (c # cs) =
     (case (if b then (case c of None \<Rightarrow> Some None | Some s \<Rightarrow> map_option Some (re_sub fl r rep s))
            else Some c) of
        None \<Rightarrow> None
      | Some c' \<Rightarrow> map_option ((#) c') (replace_cells fl r rep bs cs))"
| "replace_cells fl r rep bs cs = Some []"

text \<open>\<^verbatim>\<open>out[c] = col_all\<close>, the column now of string dtype.\<close>

definition set_col :: "dataframe \<Rightarrow> string \<Rightarrow> cell list \<Rightarrow> dataframe" where
  "set_col df name cells =
     df\<lparr>df_cols := map (\<lambda>k. if col_name k = name then k\<lparr>col_textual := True, col_cells := cells\<rparr>
                            else k) (df_cols df)\<rparr>"

text \<open>\<^verbatim>\<open>sorted(changed_rows)\<close> and \<^verbatim>\<open>len(changed_rows)\<close> for the set of the labels collected.\<close>

definition sorted_set :: "int list \<Rightarrow> int list" where
  "sorted_set xs = sort (remdups xs)"

subsection \<open>The loops over the columns\<close>

text \<open>
  The loop of the find branch, on \<^verbatim>\<open>total\<close>, \<^verbatim>\<open>per_col\<close> and the labels added to
  \<^verbatim>\<open>changed_rows\<close>. \<^verbatim>\<open>df.loc[mask, c]\<close> raises \<^verbatim>\<open>KeyError\<close> for a name that is not a
  column.
\<close>

fun find_loop ::
  "reflags \<Rightarrow> rx \<Rightarrow> dataframe \<Rightarrow> bool list \<Rightarrow> string list \<Rightarrow>
   nat \<times> (string \<times> nat) list \<times> int list \<Rightarrow> py_exn + nat \<times> (string \<times> nat) list \<times> int list" where
  "find_loop fl r df msk [] st = Inr st"
| "find_loop fl r df msk (c # cs) (tot, per_col, changed) =
     (case df_col df c of
        None \<Rightarrow> Inl (KeyError c)
      | Some cells \<Rightarrow>
          (let counts = count_cells fl r msk cells; n = sum_list counts
           in find_loop fl r df msk cs
                (tot + n, per_col @ [(c, n)],
                 if n \<noteq> 0 then changed @ hit_labels df counts else changed)))"

text \<open>
  The loop of the plain replace branch, on the copy \<^verbatim>\<open>out\<close>, \<^verbatim>\<open>total\<close>, \<^verbatim>\<open>per_col\<close> and
  the labels added to \<^verbatim>\<open>changed_rows\<close>. A column is written back only when something
  in it matched.
\<close>

fun replace_loop ::
  "reflags \<Rightarrow> rx \<Rightarrow> string \<Rightarrow> bool list \<Rightarrow> string list \<Rightarrow>
   dataframe \<times> nat \<times> (string \<times> nat) list \<times> int list \<Rightarrow>
   py_exn + dataframe \<times> nat \<times> (string \<times> nat) list \<times> int list" where
  "replace_loop fl r rep msk [] st = Inr st"
| "replace_loop fl r rep msk (c # cs) (out, tot, per_col, changed) =
     (case df_col out c of
        None \<Rightarrow> Inl (KeyError c)
      | Some cells \<Rightarrow>
          (let counts = count_cells fl r msk cells; n = sum_list counts
           in if n \<noteq> 0 then
                (case replace_cells fl r rep msk cells of
                   None \<Rightarrow> Inl ReError
                 | Some cells' \<Rightarrow>
                     replace_loop fl r rep msk cs
                       (set_col out c cells', tot + n, per_col @ [(c, n)],
                        changed @ hit_labels out counts))
              else replace_loop fl r rep msk cs (out, tot + n, per_col @ [(c, n)], changed)))"

subsection \<open>\<^verbatim>\<open>execute_plan\<close>\<close>

text \<open>An optional string is true in a test when it is there and not empty.\<close>

definition truthy :: "string option \<Rightarrow> bool" where
  "truthy s = (case s of None \<Rightarrow> False | Some t \<Rightarrow> t \<noteq> [])"

definition or_empty :: "string option \<Rightarrow> string" where
  "or_empty s = (case s of None \<Rightarrow> [] | Some t \<Rightarrow> t)"

definition is_date_normalize :: "string option \<Rightarrow> bool" where
  "is_date_normalize replacement =
     (py_startswith (or_empty replacement) ''__DATE_NORMALIZE__(''
      \<and> py_endswith (or_empty replacement) '')'')"

text \<open>
  \<^verbatim>\<open>norm_row_filter = _normalize_row_filter(row_filter, df.columns) if row_filter else None\<close>
\<close>

definition norm_row_filter_of :: "string option \<Rightarrow> string list \<Rightarrow> py_exn + string option" where
  "norm_row_filter_of row_filter headers =
     (if truthy row_filter
      then (case normalize_row_filter (or_empty row_filter) headers of
              Inl e \<Rightarrow> Inl e
            | Inr nq \<Rightarrow> Inr (Some nq))
      else Inr None)"

text \<open>
  What \<^verbatim>\<open>execute_plan\<close> settles before it compiles the pattern: the variables
  \<^verbatim>\<open>use_pattern\<close>, \<^verbatim>\<open>regex_source\<close>, \<^verbatim>\<open>row_filter_only_hits\<close>, \<^verbatim>\<open>display_regex\<close>,
  \<^verbatim>\<open>display_regex_source\<close>, \<^verbatim>\<open>display_columns\<close> and \<^verbatim>\<open>cols\<close> after the block for a find,
  the block for a replace and the last default of \<^verbatim>\<open>use_pattern\<close>.
\<close>

record decision =
  d_use_pattern :: string
  d_regex_source :: string
  d_row_filter_only_hits :: bool
  d_display_regex :: "string option"
  d_display_regex_source :: "string option"
  d_display_columns :: "string list"
  d_cols :: "string list"

definition known_columns :: "dataframe \<Rightarrow> string list \<Rightarrow> string list" where
  "known_columns df cs = filter (\<lambda>c. c \<in> set (df_columns df)) cs"

definition decide_find ::
  "dataframe \<Rightarrow> string list option \<Rightarrow> string option \<Rightarrow> decision \<Rightarrow> decision" where
  "decide_find df columns norm_row_filter d =
     (let (disp_rx, disp_cols) = display_regex_and_columns_from_row_filter norm_row_filter;
          adopt = ((d_use_pattern d = [] \<or> is_match_all (d_use_pattern d)) \<and> truthy disp_rx);
          d1 = (if adopt
                then d\<lparr>d_row_filter_only_hits := True, d_use_pattern := or_empty disp_rx,
                       d_regex_source := ''row_filter-derived'',
                       d_cols := (if columns = None \<and> disp_cols \<noteq> []
                                  then known_columns df disp_cols else d_cols d)\<rparr>
                else d)
      in if truthy disp_rx
         then d1\<lparr>d_display_regex := disp_rx, d_display_regex_source := Some ''row_filter-derived''\<rparr>
         else d1\<lparr>d_display_regex := Some (d_use_pattern d1),
                  d_display_regex_source := Some (d_regex_source d1)\<rparr>)"

definition decide_replace ::
  "dataframe \<Rightarrow> string \<Rightarrow> string list option \<Rightarrow> string option \<Rightarrow> string option \<Rightarrow>
   decision \<Rightarrow> decision" where
  "decide_replace df pattern columns replacement norm_row_filter d =
     (let d1 = (if d_use_pattern d \<noteq> []
                then d\<lparr>d_display_regex := Some (d_use_pattern d),
                       d_display_regex_source := Some ''regex''\<rparr>
                else d)
      in if \<not> is_date_normalize replacement \<and> truthy norm_row_filter then
           (let (disp_rx, disp_cols) = display_regex_and_columns_from_row_filter norm_row_filter
            in if (pattern = [] \<or> is_match_all pattern) \<and> truthy disp_rx
               then d1\<lparr>d_display_regex := disp_rx,
                        d_display_regex_source := Some ''row_filter-derived'',
                        d_display_columns := (if columns = None \<and> disp_cols \<noteq> []
                                              then known_columns df disp_cols
                                              else d_display_columns d1)\<rparr>
               else d1)
         else d1)"

definition decide ::
  "dataframe \<Rightarrow> string \<Rightarrow> string \<Rightarrow> string list option \<Rightarrow> string option \<Rightarrow> string option \<Rightarrow>
   decision" where
  "decide df intent pattern columns replacement norm_row_filter =
     (let cols = auto_columns df intent pattern columns;
          d0 = \<lparr>d_use_pattern = pattern, d_regex_source = ''regex'',
                d_row_filter_only_hits = False, d_display_regex = None,
                d_display_regex_source = None, d_display_columns = cols, d_cols = cols\<rparr>;
          d1 = (if py_lower intent = ''find'' then decide_find df columns norm_row_filter d0 else d0);
          d2 = (if py_lower intent = ''replace''
                then decide_replace df pattern columns replacement norm_row_filter d1 else d1)
      in if d_use_pattern d2 = [] then d2\<lparr>d_use_pattern := ''^.*$''\<rparr> else d2)"

text \<open>The find branch, once the pattern is compiled.\<close>

definition execute_find ::
  "dataframe \<Rightarrow> rx \<Rightarrow> string \<Rightarrow> string option \<Rightarrow> string option \<Rightarrow> bool list \<Rightarrow> decision \<Rightarrow>
   int \<Rightarrow> py_exn + dataframe \<times> payload" where
  "execute_find df r flags row_filter norm_row_filter msk d head_n =
     (case find_loop (reflags_of (compile_flags flags)) r df msk (d_cols d) (0, [], []) of
        Inl e \<Rightarrow> Inl e
      | Inr (tot, per_col, changed0) \<Rightarrow>
          (let changed = (if d_row_filter_only_hits d then index_where df msk else changed0)
           in Inr (df,
                \<lparr>p_mode = ''find'',
                 p_regex = d_use_pattern d,
                 p_regex_source = d_regex_source d,
                 p_display_regex = d_display_regex d,
                 p_display_regex_source = d_display_regex_source d,
                 p_display_columns = None,
                 p_flags = flags,
                 p_columns_applied = d_cols d,
                 p_row_filter = row_filter,
                 p_row_filter_normalized = norm_row_filter,
                 p_mask_row_indices = take 2000 (index_where df msk),
                 p_total = tot,
                 p_per_column = per_col,
                 p_changed_row_indices = take 2000 (sorted_set changed),
                 p_head_hit_row_indices = filter (\<lambda>i. i < head_n) (sorted_set changed),
                 p_result_rows_description =
                   (if d_row_filter_only_hits d then desc_filter_only else desc_filter_and_pattern),
                 p_result_rows_count = length (remdups changed),
                 p_result_rows_indices = take 2000 (sorted_set changed)\<rparr>)))"

text \<open>The plain replace branch, once the pattern is compiled.\<close>

definition execute_replace ::
  "dataframe \<Rightarrow> rx \<Rightarrow> string \<Rightarrow> string option \<Rightarrow> string option \<Rightarrow> string option \<Rightarrow>
   bool list \<Rightarrow> decision \<Rightarrow> int \<Rightarrow> py_exn + dataframe \<times> payload" where
  "execute_replace df r flags replacement row_filter norm_row_filter msk d head_n =
     (case replace_loop (reflags_of (compile_flags flags)) r (or_empty replacement) msk (d_cols d)
             (df, 0, [], []) of
        Inl e \<Rightarrow> Inl e
      | Inr (out, tot, per_col, changed) \<Rightarrow>
          Inr (out,
            \<lparr>p_mode = ''replace'',
             p_regex = d_use_pattern d,
             p_regex_source = d_regex_source d,
             p_display_regex = d_display_regex d,
             p_display_regex_source = d_display_regex_source d,
             p_display_columns = Some (d_display_columns d),
             p_flags = flags,
             p_columns_applied = d_cols d,
             p_row_filter = row_filter,
             p_row_filter_normalized = norm_row_filter,
             p_mask_row_indices = take 2000 (index_where df msk),
             p_total = tot,
             p_per_column = per_col,
             p_changed_row_indices = take 2000 (sorted_set changed),
             p_head_hit_row_indices = filter (\<lambda>i. i < head_n) (sorted_set changed),
             p_result_rows_description = desc_filter_and_pattern,
             p_result_rows_count = length (remdups changed),
             p_result_rows_indices = take 2000 (sorted_set changed)\<rparr>))"

text \<open>
  \<^verbatim>\<open>execute_plan\<close>. The branch that normalises dates (a replace whose replacement is the
  sentinel \<^verbatim>\<open>__DATE_NORMALIZE__(...)\<close>) is not transcribed: \<open>date_branch\<close> stands for it, a
  parameter applied to what the branch reads.
\<close>

type_synonym date_branch =
  "dataframe \<Rightarrow> string \<Rightarrow> string \<Rightarrow> string \<Rightarrow> string list option \<Rightarrow> string option \<Rightarrow>
   string option \<Rightarrow> string option \<Rightarrow> int \<Rightarrow> py_exn + dataframe \<times> payload"

definition execute_plan ::
  "ext \<Rightarrow> date_branch \<Rightarrow> dataframe \<Rightarrow> string \<Rightarrow> string \<Rightarrow> string \<Rightarrow> string list option \<Rightarrow>
   string option \<Rightarrow> string option \<Rightarrow> int \<Rightarrow> py_exn + dataframe \<times> payload" where
  "execute_plan E DN df intent pattern0 flags columns replacement row_filter head_n =
     (let pattern = (if pattern0 = [] \<and> py_lower intent = ''find'' then ''^.*$'' else pattern0)
      in case ensure_mask_from_query E df row_filter of
           Inl e \<Rightarrow> Inl e
         | Inr msk \<Rightarrow>
             (case norm_row_filter_of row_filter (df_columns df) of
                Inl e \<Rightarrow> Inl e
              | Inr norm_row_filter \<Rightarrow>
                  (let d = decide df intent pattern columns replacement norm_row_filter
                   in case re_compile E (d_use_pattern d) (compile_flags flags) of
                        None \<Rightarrow> Inl ReError
                      | Some r \<Rightarrow>
                          if py_lower intent = ''find''
                          then execute_find df r flags row_filter norm_row_filter msk d head_n
                          else if py_lower intent = ''replace'' \<and> is_date_normalize replacement
                          then DN df intent pattern flags columns replacement row_filter
                                 norm_row_filter head_n
                          else execute_replace df r flags replacement row_filter norm_row_filter
                                 msk d head_n)))"

section \<open>Notions used in the proofs\<close>

text \<open>An accumulated mask, when there is one, has one entry per row.\<close>

definition mask_ok :: "dataframe \<Rightarrow> bool list option \<Rightarrow> bool" where
  "mask_ok df acc = (case acc of None \<Rightarrow> True | Some m \<Rightarrow> length m = df_len df)"



definition res_payload :: "py_exn + dataframe \<times> payload \<Rightarrow> payload option" where
  "res_payload res = (case res of Inl e \<Rightarrow> None | Inr (d, P) \<Rightarrow> Some P)"

section \<open>Sample instances of the external libraries\<close>

text \<open>
  The pattern \<^verbatim>\<open>^.*$\<close> as \<^verbatim>\<open>re.compile\<close> parses it.
\<close>

definition rx_match_all :: rx where
  "rx_match_all = Seq [Bol, Star Dot, Eol]"

text \<open>
  A query engine that understands one clause shape, \<^verbatim>\<open>`col` == 'text'\<close> with exact
  comparison, and raises on everything else; a pattern parser that knows \<^verbatim>\<open>^.*$\<close>
  and \<^verbatim>\<open>(?:US)\<close> only. They instantiate the parameters in the worked examples below.
\<close>

definition rx_simple_eq :: rx where
  "rx_simple_eq =
     Seq [Star (Set [Space]), Lit btick, Grp 1 (Plus (NSet [Ch btick])), Lit btick,
          Star (Set [Space]), Str ''=='', Star (Set [Space]), Lit squote,
          Grp 2 (Star (NSet [Ch squote])), Lit squote, Star (Set [Space])]"

definition demo_query :: "dataframe \<Rightarrow> string \<Rightarrow> int list option" where
  "demo_query df q =
     (case re_fullmatch (reflags_of 0) rx_simple_eq q of
        None \<Rightarrow> None
      | Some m \<Rightarrow>
          (case df_col df (grp m 1) of
             None \<Rightarrow> None
           | Some cells \<Rightarrow>
               Some (map fst (filter (\<lambda>(l, c). c = Some (grp m 2)) (zip (df_index df) cells)))))"

definition demo_compile :: "string \<Rightarrow> int \<Rightarrow> rx option" where
  "demo_compile p f =
     (if p = ''^.*$'' then Some rx_match_all
      else if p = ''(?:US)'' then Some (Str ''US'')
      else None)"

definition demo_ext :: ext where
  "demo_ext = \<lparr>pd_query = demo_query, pd_to_numeric = (\<lambda>c. None), py_float = (\<lambda>s. 0),
                re_compile = demo_compile\<rparr>"

text \<open>
  A plan with the flags \<open>zq\<close>, a blank pattern and the replacement \<open>NA\<close> between
  spaces, and one with the flags \<open>mzs\<close>, the pattern \<open>abc\<close> and the replacement \<open>x\<close>.
\<close>

definition sample_plan :: RegexPlan where
  "sample_plan = \<lparr>plan_intent = ''replace'', plan_pattern = ''  '', plan_flags = ''zq'',
                   plan_columns = None, plan_replacement = Some '' NA '',
                   plan_row_filter = None\<rparr>"

definition kept_plan :: RegexPlan where
  "kept_plan = \<lparr>plan_intent = ''replace'', plan_pattern = '' abc '', plan_flags = ''mzs'',
                 plan_columns = None, plan_replacement = Some '' x '',
                 plan_row_filter = None\<rparr>"

text \<open>Two small datasets and some row filters.\<close>

definition demo_df :: dataframe where
  "demo_df =
     \<lparr>df_index = [0, 1, 2, 3],
      df_cols =
        [\<lparr>col_name = ''Name'', col_textual = True,
          col_cells = [Some ''Alice'', Some ''Bob'', None, Some ''Dan'']\<rparr>,
         \<lparr>col_name = ''Country'', col_textual = True,
          col_cells = [Some ''UK'', Some ''US'', Some ''UK'', Some ''US'']\<rparr>]\<rparr>"






definition filter_us :: string where
  "filter_us = ''`Country` == '' @ [squote] @ ''US'' @ [squote]"

definition filter_us_or_first :: string where
  "filter_us_or_first = filter_us @ '' or __rownum__ == 1''"

definition filter_rownum_1 :: string where
  "filter_rownum_1 = ''__rownum__ == 1''"

definition filter_alice :: string where
  "filter_alice = ''`Name` == '' @ [squote] @ ''alice'' @ [squote]"

text \<open>A dataset whose only header has a backslash before a letter.\<close>

definition df_bslash :: dataframe where
  "df_bslash =
     \<lparr>df_index = [0, 1],
      df_cols = [\<lparr>col_name = ''Y'' @ [bslash] @ ''N'', col_textual = True,
                  col_cells = [Some ''Y'', Some ''N'']\<rparr>]\<rparr>"

definition filter_x_is_1 :: string where
  "filter_x_is_1 = ''x == 1''"

text \<open>A dataset with a column named \<open>Color\<close> and a filter on it.\<close>

definition df_color :: dataframe where
  "df_color =
     \<lparr>df_index = [0, 1],
      df_cols = [\<lparr>col_name = ''Color'', col_textual = True,
                  col_cells = [Some ''red'', Some ''blue'']\<rparr>]\<rparr>"

definition filter_color_plain :: string where
  "filter_color_plain = ''Color == '' @ [squote] @ ''red'' @ [squote]"

definition filter_color_red :: string where
  "filter_color_red = ''`Color` == '' @ [squote] @ ''red'' @ [squote]"

definition filter_color_head :: string where
  "filter_color_head = ''`Col''"

definition filter_color_tail :: string where
  "filter_color_tail = ''` == '' @ [squote] @ ''red'' @ [squote]"

text \<open>
  A stand-in for the branch that normalises dates, a dataset with a missing cell and a
  cell of two lines, and a filter with a prefix clause.
\<close>

definition demo_dn :: date_branch where
  "demo_dn = (\<lambda>df intent pattern flags columns replacement row_filter nrf head_n. Inl ReError)"



definition filter_name_prefix :: string where
  "filter_name_prefix = ''`Name`.str.startswith('' @ [squote] @ ''A'' @ [squote] @ '')''"

definition filter_gender :: string where
  "filter_gender = ''`Gender` == '' @ [squote] @ ''Female'' @ [squote]"

section \<open>Properties of the flag translation\<close>

lemma compile_flags_loop_unrecognised:
  "\<forall>c \<in> set flags. c \<notin> {CHR ''i'', CHR ''m'', CHR ''s'', CHR ''x''} \<Longrightarrow>
   compile_flags_loop f flags = f"
  by (induction flags arbitrary: f) auto

lemma compile_flags_loop_ignorecase_bit:
  "bit (compile_flags_loop f flags) (Suc 0) \<longleftrightarrow> bit f (Suc 0) \<or> CHR ''i'' \<in> set flags"
  by (induction flags arbitrary: f)
     (auto simp: bit_or_iff re_IGNORECASE_def re_MULTILINE_def re_DOTALL_def re_VERBOSE_def)

text \<open>
  C10. A flags string with no character among \<open>i\<close>, \<open>m\<close>, \<open>s\<close>, \<open>x\<close> (the empty
  string and \<open>u\<close>/\<open>U\<close> included) is translated to exactly \<^verbatim>\<open>re.IGNORECASE\<close>; and
  whenever the translated flags lack the IGNORECASE bit, the string contains one of
  \<open>m\<close>, \<open>s\<close>, \<open>x\<close> (and no \<open>i\<close>): case-sensitive matching cannot be had otherwise.
\<close>

theorem compile_flags_defaults_to_ignorecase:
  "((\<forall>c \<in> set flags. c \<notin> {CHR ''i'', CHR ''m'', CHR ''s'', CHR ''x''})
      \<longrightarrow> compile_flags flags = re_IGNORECASE)
   \<and> (\<not> bit (compile_flags flags) 1
      \<longrightarrow> CHR ''i'' \<notin> set flags \<and> (\<exists>c \<in> set flags. c \<in> {CHR ''m'', CHR ''s'', CHR ''x''}))"
proof (intro conjI impI)
  assume "\<forall>c \<in> set flags. c \<notin> {CHR ''i'', CHR ''m'', CHR ''s'', CHR ''x''}"
  then have "compile_flags_loop 0 flags = 0"
    by (rule compile_flags_loop_unrecognised)
  then show "compile_flags flags = re_IGNORECASE"
    by (simp add: compile_flags_def)
next
  assume nb: "\<not> bit (compile_flags flags) 1"
  have ne: "flags \<noteq> []" and nz: "compile_flags_loop 0 flags \<noteq> 0"
    using nb by (auto simp: compile_flags_def re_IGNORECASE_def Let_def split: if_splits)
  from nb ne nz have "\<not> bit (compile_flags_loop 0 flags) 1"
    by (simp add: compile_flags_def Let_def)
  then show "CHR ''i'' \<notin> set flags"
    by (simp add: compile_flags_loop_ignorecase_bit)
next
  assume nb: "\<not> bit (compile_flags flags) 1"
  have nz: "compile_flags_loop 0 flags \<noteq> 0"
    using nb by (auto simp: compile_flags_def re_IGNORECASE_def Let_def split: if_splits)
  show "\<exists>c \<in> set flags. c \<in> {CHR ''m'', CHR ''s'', CHR ''x''}"
  proof (rule ccontr)
    assume "\<not> (\<exists>c \<in> set flags. c \<in> {CHR ''m'', CHR ''s'', CHR ''x''})"
    moreover have "CHR ''i'' \<notin> set flags"
    proof -
      from nb nz have "\<not> bit (compile_flags_loop 0 flags) 1"
        by (auto simp: compile_flags_def Let_def re_IGNORECASE_def split: if_splits)
      then show ?thesis by (simp add: compile_flags_loop_ignorecase_bit)
    qed
    ultimately have "\<forall>c \<in> set flags. c \<notin> {CHR ''i'', CHR ''m'', CHR ''s'', CHR ''x''}"
      by auto
    then have "compile_flags_loop 0 flags = 0"
      by (rule compile_flags_loop_unrecognised)
    with nz show False by simp
  qed
qed

theorem compile_flags_defaults_to_ignorecase_witness:
  "compile_flags ''u'' = re_IGNORECASE
   \<and> \<not> bit (compile_flags ''m'') 1
   \<and> CHR ''i'' \<notin> set ''m''
   \<and> (\<exists>c \<in> set ''m''. c \<in> {CHR ''m'', CHR ''s'', CHR ''x''})"
  using compile_flags_defaults_to_ignorecase [of "''u''"]
        compile_flags_defaults_to_ignorecase [of "''m''"]
  by (simp add: compile_flags_def re_MULTILINE_def re_IGNORECASE_def)

section \<open>Normalising, then validating a plan\<close>

lemma normalize_flags_safe:
  "set (plan_flags (normalize_plan p)) \<subseteq> set allowed_flags \<and> plan_flags (normalize_plan p) \<noteq> []"
  by (auto simp: normalize_plan_def Let_def allowed_flags_def)

lemma normalize_replacement_not_na:
  "plan_replacement (normalize_plan p) \<notin> set (map Some na_like)"
  by (auto simp: normalize_plan_def Let_def na_like_def)

text \<open>
  C9. Normalisation keeps, in their order, exactly the flag characters of the plan that
  are in the recognised set, and gives \<open>''i''\<close> only when none remain; it keeps a
  pattern that is not blank, stripped of surrounding white space, and gives \<^verbatim>\<open>^.*$\<close>
  for an empty or blank one; it keeps a replacement that is neither blank nor one of
  \<open>NA\<close>, \<open>N/A\<close>, \<open>NaN\<close>, \<open>nan\<close>, \<open>na\<close>, stripped, gives \<open>N/A (missing)\<close> for each of
  those five and nothing for a blank one; the other fields are untouched. Validating
  the normalised plan therefore reports no unsupported flag; it reports no pattern
  error for a plan whose pattern was blank when \<^verbatim>\<open>re.compile\<close> accepts \<^verbatim>\<open>^.*$\<close>; and the
  replacement it sees is never one of the five.
\<close>

theorem normalize_then_validate:
  "(\<forall>c. UnsupportedFlag c \<notin> set (validate_plan E (normalize_plan p) headers))
   \<and> set (plan_flags (normalize_plan p)) \<subseteq> set allowed_flags
   \<and> plan_flags (normalize_plan p) \<noteq> []
   \<and> (filter (\<lambda>ch. ch \<in> set allowed_flags) (plan_flags p) = []
        \<longrightarrow> plan_flags (normalize_plan p) = ''i'')
   \<and> plan_pattern (normalize_plan p) \<noteq> []
   \<and> (py_strip (plan_pattern p) = [] \<longrightarrow> plan_pattern (normalize_plan p) = ''^.*$'')
   \<and> (py_strip (plan_pattern p) = [] \<and> re_compile E ''^.*$'' 0 \<noteq> None
        \<longrightarrow> PatternNotCompilable \<notin> set (validate_plan E (normalize_plan p) headers))
   \<and> plan_replacement (normalize_plan p) \<notin> set (map Some na_like)
   \<and> (\<forall>r. plan_replacement p = Some r \<and> py_strip r \<in> set na_like
        \<longrightarrow> plan_replacement (normalize_plan p) = Some ''N/A (missing)'')
   \<and> plan_flags (normalize_plan p) =
        (if filter (\<lambda>ch. ch \<in> set allowed_flags) (plan_flags p) = [] then ''i''
         else filter (\<lambda>ch. ch \<in> set allowed_flags) (plan_flags p))
   \<and> plan_pattern (normalize_plan p) =
        (if py_strip (plan_pattern p) = [] then ''^.*$'' else py_strip (plan_pattern p))
   \<and> plan_replacement (normalize_plan p) =
        (case plan_replacement p of
           None \<Rightarrow> None
         | Some r \<Rightarrow>
             if py_strip r = [] then None
             else if py_strip r \<in> set na_like then Some ''N/A (missing)''
             else Some (py_strip r))
   \<and> plan_intent (normalize_plan p) = plan_intent p
   \<and> plan_columns (normalize_plan p) = plan_columns p
   \<and> plan_row_filter (normalize_plan p) = plan_row_filter p
   \<and> map UnsupportedFlag (filter (\<lambda>f. f \<notin> set allowed_flags) (plan_flags (normalize_plan p))) = []
   \<and> (PatternNotCompilable \<in> set (validate_plan E (normalize_plan p) headers)
        \<longleftrightarrow> re_compile E (plan_pattern (normalize_plan p)) 0 = None)"
proof (intro conjI allI impI)
  fix c
  have "c \<in> set (plan_flags (normalize_plan p)) \<Longrightarrow> c \<in> set allowed_flags" for c
    using normalize_flags_safe [of p] by auto
  then show "UnsupportedFlag c \<notin> set (validate_plan E (normalize_plan p) headers)"
    by (auto simp: validate_plan_def Let_def split: option.splits if_splits)
next
  show "set (plan_flags (normalize_plan p)) \<subseteq> set allowed_flags"
    using normalize_flags_safe [of p] by simp
next
  show "plan_flags (normalize_plan p) \<noteq> []"
    using normalize_flags_safe [of p] by simp
next
  assume "filter (\<lambda>ch. ch \<in> set allowed_flags) (plan_flags p) = []"
  then show "plan_flags (normalize_plan p) = ''i''"
    by (auto simp: normalize_plan_def Let_def allowed_flags_def)
next
  show "plan_pattern (normalize_plan p) \<noteq> []"
    by (simp add: normalize_plan_def Let_def)
next
  assume "py_strip (plan_pattern p) = []"
  then show "plan_pattern (normalize_plan p) = ''^.*$''"
    by (simp add: normalize_plan_def Let_def)
next
  assume "py_strip (plan_pattern p) = [] \<and> re_compile E ''^.*$'' 0 \<noteq> None"
  then have "plan_pattern (normalize_plan p) = ''^.*$''" and "re_compile E ''^.*$'' 0 \<noteq> None"
    by (simp_all add: normalize_plan_def Let_def)
  then show "PatternNotCompilable \<notin> set (validate_plan E (normalize_plan p) headers)"
    by (auto simp: validate_plan_def Let_def split: option.splits if_splits)
next
  show "plan_replacement (normalize_plan p) \<notin> set (map Some na_like)"
    by (rule normalize_replacement_not_na)
next
  fix r
  assume "plan_replacement p = Some r \<and> py_strip r \<in> set na_like"
  then show "plan_replacement (normalize_plan p) = Some ''N/A (missing)''"
    by (auto simp: normalize_plan_def Let_def na_like_def)
next
  show "plan_flags (normalize_plan p) =
        (if filter (\<lambda>ch. ch \<in> set allowed_flags) (plan_flags p) = [] then ''i''
         else filter (\<lambda>ch. ch \<in> set allowed_flags) (plan_flags p))"
    by (simp add: normalize_plan_def Let_def allowed_flags_def)
next
  show "plan_pattern (normalize_plan p) =
        (if py_strip (plan_pattern p) = [] then ''^.*$'' else py_strip (plan_pattern p))"
    by (simp add: normalize_plan_def Let_def)
next
  show "plan_replacement (normalize_plan p) =
        (case plan_replacement p of
           None \<Rightarrow> None
         | Some r \<Rightarrow>
             if py_strip r = [] then None
             else if py_strip r \<in> set na_like then Some ''N/A (missing)''
             else Some (py_strip r))"
    by (auto simp: normalize_plan_def Let_def na_like_def py_strip_def split: option.splits)
next
  show "plan_intent (normalize_plan p) = plan_intent p"
    by (simp add: normalize_plan_def Let_def)
next
  show "plan_columns (normalize_plan p) = plan_columns p"
    by (simp add: normalize_plan_def Let_def)
next
  show "plan_row_filter (normalize_plan p) = plan_row_filter p"
    by (simp add: normalize_plan_def Let_def)
next
  have "c \<in> set (plan_flags (normalize_plan p)) \<Longrightarrow> c \<in> set allowed_flags" for c
    using normalize_flags_safe [of p] by auto
  then show "map UnsupportedFlag
      (filter (\<lambda>f. f \<notin> set allowed_flags) (plan_flags (normalize_plan p))) = []"
    by (simp add: filter_empty_conv)
next
  show "PatternNotCompilable \<in> set (validate_plan E (normalize_plan p) headers)
        \<longleftrightarrow> re_compile E (plan_pattern (normalize_plan p)) 0 = None"
    by (auto simp: validate_plan_def Let_def split: option.splits if_splits)
qed

text \<open>
  Two plans. The first has the flags \<open>zq\<close>, a blank pattern and the replacement \<open>NA\<close>
  between spaces, so every field takes its default. The second has the flags \<open>mzs\<close>,
  the pattern \<open>abc\<close> and the replacement \<open>x\<close>, each between spaces: its recognised
  flags, its pattern and its replacement are kept.
\<close>

lemma sample_plan_facts:
  "filter (\<lambda>ch. ch \<in> set allowed_flags) (plan_flags sample_plan) = []"
  "py_strip (plan_pattern sample_plan) = []"
  "re_compile demo_ext ''^.*$'' 0 \<noteq> None"
  "plan_replacement sample_plan = Some '' NA ''"
  "py_strip '' NA '' \<in> set na_like"
  by (simp_all add: sample_plan_def allowed_flags_def py_strip_def py_isspace_def
        demo_ext_def demo_compile_def na_like_def)

lemma kept_plan_facts:
  "filter (\<lambda>ch. ch \<in> set allowed_flags) (plan_flags kept_plan) = ''ms''"
  "py_strip (plan_pattern kept_plan) = ''abc''"
  "plan_replacement kept_plan = Some '' x ''"
  "py_strip '' x '' = ''x''"
  "''x'' \<notin> set na_like"
  "plan_intent kept_plan = ''replace''"
  by (simp_all add: kept_plan_def allowed_flags_def py_strip_def py_isspace_def na_like_def)

theorem normalize_then_validate_witness:
  "filter (\<lambda>ch. ch \<in> set allowed_flags) (plan_flags sample_plan) = []
   \<and> py_strip (plan_pattern sample_plan) = []
   \<and> re_compile demo_ext ''^.*$'' 0 \<noteq> None
   \<and> plan_replacement sample_plan = Some '' NA ''
   \<and> py_strip '' NA '' \<in> set na_like
   \<and> plan_flags (normalize_plan sample_plan) = ''i''
   \<and> plan_pattern (normalize_plan sample_plan) = ''^.*$''
   \<and> PatternNotCompilable \<notin> set (validate_plan demo_ext (normalize_plan sample_plan) [])
   \<and> (\<forall>c. UnsupportedFlag c \<notin> set (validate_plan demo_ext (normalize_plan sample_plan) []))
   \<and> plan_replacement (normalize_plan sample_plan) = Some ''N/A (missing)''
   \<and> filter (\<lambda>ch. ch \<in> set allowed_flags) (plan_flags kept_plan) = ''ms''
   \<and> plan_flags (normalize_plan kept_plan) = ''ms''
   \<and> plan_pattern (normalize_plan kept_plan) = ''abc''
   \<and> plan_replacement (normalize_plan kept_plan) = Some ''x''
   \<and> plan_intent (normalize_plan kept_plan) = ''replace''
   \<and> (\<forall>c. UnsupportedFlag c \<notin> set (validate_plan demo_ext (normalize_plan kept_plan) []))"
proof -
  note A = normalize_then_validate [of demo_ext sample_plan "[]"]
  note B = normalize_then_validate [of demo_ext kept_plan "[]"]
  from A sample_plan_facts have a:
    "plan_flags (normalize_plan sample_plan) = ''i''"
    "plan_pattern (normalize_plan sample_plan) = ''^.*$''"
    "PatternNotCompilable \<notin> set (validate_plan demo_ext (normalize_plan sample_plan) [])"
    "\<forall>c. UnsupportedFlag c \<notin> set (validate_plan demo_ext (normalize_plan sample_plan) [])"
    "plan_replacement (normalize_plan sample_plan) = Some ''N/A (missing)''"
    by blast+
  from B have b:
    "plan_flags (normalize_plan kept_plan) = ''ms''"
    "plan_pattern (normalize_plan kept_plan) = ''abc''"
    "plan_replacement (normalize_plan kept_plan) = Some ''x''"
    "plan_intent (normalize_plan kept_plan) = ''replace''"
    by (simp_all add: kept_plan_facts)
  from B have c:
    "\<forall>c. UnsupportedFlag c \<notin> set (validate_plan demo_ext (normalize_plan kept_plan) [])"
    by blast
  from sample_plan_facts(1) sample_plan_facts(2) sample_plan_facts(3) sample_plan_facts(4)
    sample_plan_facts(5) a kept_plan_facts(1) b c
  show ?thesis
    by (intro conjI)
qed

section \<open>The date normalizer\<close>

lemma to_strftime_iso: "to_strftime ''YYYY-MM-DD'' = ''%Y-%m-%d''"
  by code_simp

lemma timedelta_unbound: "''timedelta'' \<notin> set date_normalizer_names"
  by (simp add: date_normalizer_names_def)

text \<open>
  A number is never read as a spreadsheet serial date: \<^verbatim>\<open>timedelta\<close> is not bound in
  the module, the \<^verbatim>\<open>try\<close> raises \<^verbatim>\<open>NameError\<close>, the \<^verbatim>\<open>except\<close> swallows it, and the
  number goes on to the text branch like any other value.
\<close>

lemma excel_serial_raises: "excel_serial n fmt = Inl (NameError ''timedelta'')"
  by (simp add: excel_serial_def timedelta_unbound)

lemma normalize_cell_number_as_text:
  "numeric_value v \<noteq> None \<Longrightarrow>
   normalize_cell_as_whole D v out_fmt dayfirst =
     (case parse_one D (py_str D v) dayfirst of
        None \<Rightarrow> (py_str D v, 0)
      | Some dt \<Rightarrow> (strftime (to_strftime out_fmt) dt, 1))"
  by (cases v) (auto simp: normalize_cell_as_whole_def Let_def excel_serial_raises numeric_value_def)

text \<open>What the serial number 45292 stands for: 1899-12-30 plus 45292 days is 2024-01-01.\<close>

lemma serial_to_datetime_45292:
  "serial_to_datetime 45292 =
     \<lparr>dt_year = 2024, dt_month = 1, dt_day = 1, dt_hour = 0, dt_minute = 0, dt_second = 0\<rparr>"
  by code_simp

lemma pad_2024_01: "pad4 2024 = ''2024''" "pad2 (Suc 0) = ''01''"
  by (simp_all add: pad4_def pad2_def digits_of_nat.simps digit_char_def)

lemma serial_45292_is_2024_01_01:
  "strftime ''%Y-%m-%d'' (serial_to_datetime 45292) = ''2024-01-01''"
  by (simp add: serial_to_datetime_45292 pad_2024_01)

text \<open>
  C7. \<^verbatim>\<open>normalize_cell_as_whole(45292, "YYYY-MM-DD")\<close> does not take the serial-date
  branch: the result is whatever parsing the text \<open>45292\<close> as a date gives, the text
  itself with count 0 when no parser accepts it.
\<close>

theorem normalize_cell_as_whole_45292:
  "normalize_cell_as_whole D (PyInt 45292) ''YYYY-MM-DD'' None =
     (case parse_one D ''45292'' None of
        None \<Rightarrow> (''45292'', 0)
      | Some dt \<Rightarrow> (strftime ''%Y-%m-%d'' dt, 1))"
proof -
  have s: "py_str D (PyInt 45292) = ''45292''"
    by (simp add: py_str_def py_str_int_def digits_of_nat.simps digit_char_def)
  have "numeric_value (PyInt 45292) \<noteq> None"
    by (simp add: numeric_value_def)
  from normalize_cell_number_as_text [OF this, of D "''YYYY-MM-DD''" None]
  show ?thesis by (simp only: s to_strftime_iso)
qed

text \<open>
  C8. \<^verbatim>\<open>guess_dayfirst(["31/12/2020", "15/01/2021"])\<close> is \<open>None\<close>: in both samples the
  first number is above 12, so neither is counted as an ambiguous hit, and with no
  ambiguous hit the function returns undetermined.
\<close>

theorem guess_dayfirst_spec_example:
  "guess_dayfirst [''31/12/2020'', ''15/01/2021''] = None"
  by code_simp

section \<open>Masks have one entry per row\<close>

lemma df_col_length:
  assumes "df_ok df" and "df_col df name = Some cells"
  shows "length cells = df_len df"
proof -
  from assms(2) obtain c where f: "find (\<lambda>c. col_name c = name) (df_cols df) = Some c"
    and c: "cells = col_cells c"
    by (auto simp: df_col_def)
  from f have "c \<in> set (df_cols df)"
    by (auto simp: find_Some_iff)
  with assms(1) show ?thesis
    by (simp add: df_ok_def list_all_iff c df_len_def)
qed

lemma and_acc_ok:
  "mask_ok df acc \<Longrightarrow> length cur = df_len df \<Longrightarrow> mask_ok df (and_acc acc cur)"
  by (cases acc) (simp_all add: mask_ok_def and_acc_def mask_and_def)

lemma eq_step_ok: "df_ok df \<Longrightarrow> mask_ok df acc \<Longrightarrow> mask_ok df (eq_step df acc m)"
  by (auto simp: eq_step_def eq_ci_mask_def df_col_length intro!: and_acc_ok split: option.splits)

lemma num_step_ok: "df_ok df \<Longrightarrow> mask_ok df acc \<Longrightarrow> mask_ok df (num_step E df acc m)"
  by (auto simp: num_step_def df_col_length intro!: and_acc_ok split: option.splits)

lemma str_step_ok: "df_ok df \<Longrightarrow> mask_ok df acc \<Longrightarrow> mask_ok df (str_step E df acc m)"
  by (auto simp: str_step_def Let_def str_cells_def df_col_length intro!: and_acc_ok
      split: option.splits)

lemma foldl_ok:
  "(\<And>acc m. mask_ok df acc \<Longrightarrow> mask_ok df (f acc m)) \<Longrightarrow> mask_ok df acc \<Longrightarrow>
   mask_ok df (foldl f acc xs)"
  by (induction xs arbitrary: acc) simp_all

lemma mask_from_clauses_length:
  assumes "df_ok df" and "mask_from_clauses E df q = Some m"
  shows "length m = df_len df"
proof -
  have "mask_ok df (mask_from_clauses E df q)"
    unfolding mask_from_clauses_def Let_def
    by (intro foldl_ok eq_step_ok num_step_ok str_step_ok assms(1)) (simp_all add: mask_ok_def)
  with assms(2) show ?thesis by (simp add: mask_ok_def)
qed

lemma isin_mask_length: "length (isin_mask df idx) = df_len df"
  by (simp add: isin_mask_def df_len_def)

lemma eval_basic_query_length:
  "df_ok df \<Longrightarrow> length (fst (eval_basic_query E df q)) = df_len df"
  by (auto simp: eval_basic_query_def Let_def isin_mask_length all_true_def
      mask_from_clauses_length split: option.splits)

section \<open>Picking rows by number\<close>

lemma pick_rows_set:
  "set (pick_rows labels ns) =
     {labels ! nat (n - 1) | n. n \<in> set ns \<and> 1 \<le> n \<and> n \<le> int (length labels)}"
  by (auto simp: pick_rows_def Let_def)

lemma pick_rows_whole:
  assumes "distinct labels" and "i < length labels"
  shows "labels ! i \<in> set (pick_rows labels ns) \<longleftrightarrow> int i + 1 \<in> set ns"
proof
  assume "labels ! i \<in> set (pick_rows labels ns)"
  then obtain n where n: "n \<in> set ns" "1 \<le> n" "n \<le> int (length labels)"
    and eq: "labels ! i = labels ! nat (n - 1)"
    by (auto simp: pick_rows_set)
  from n have "nat (n - 1) < length labels" by linarith
  with eq assms have "i = nat (n - 1)"
    by (simp add: nth_eq_iff_index_eq)
  with n show "int i + 1 \<in> set ns" by simp
next
  assume "int i + 1 \<in> set ns"
  with assms(2) show "labels ! i \<in> set (pick_rows labels ns)"
    by (auto simp: pick_rows_set intro!: exI [of _ "int i + 1"])
qed

text \<open>The labels a mask selects, and where the label of a selected row stands among them.\<close>

lemma filter_zip_length:
  "length xs = length m \<Longrightarrow> length (filter snd (zip xs m)) = mask_sum m"
  by (induction xs m rule: list_induct2) (simp_all add: mask_sum_def)

lemma index_where_length:
  "length m = df_len df \<Longrightarrow> length (index_where df m) = mask_sum m"
  by (simp add: index_where_def df_len_def filter_zip_length)




lemma index_where_distinct: "distinct (df_index df) \<Longrightarrow> distinct (index_where df m)"
  unfolding index_where_def
  by (rule distinct_map_filter) (simp add: map_fst_zip_take)



lemma picks_mask_nth:
  "i < df_len df \<Longrightarrow> picks_mask df picks ! i \<longleftrightarrow> df_index df ! i \<in> set picks"
  by (simp add: picks_mask_def isin_mask_def all_false_def df_len_def)

lemma picks_mask_length: "length (picks_mask df picks) = df_len df"
  by (simp add: picks_mask_def isin_mask_length all_false_def)

section \<open>Row numbers in a group\<close>



lemma strip_true: "py_strip '' True '' = ''True''" "py_lower ''True'' = ''true''"
  by code_simp+

lemma demo_df_ok: "df_ok demo_df" "distinct (df_index demo_df)" "df_len demo_df = 4"
  by (simp_all add: demo_df_def df_ok_def df_len_def)







section \<open>The union of the groups\<close>

lemma mask_group_with_rownum_length:
  "df_ok df \<Longrightarrow> length (fst (mask_group_with_rownum E df g)) = df_len df"
  by (simp add: mask_group_with_rownum_def Let_def picks_mask_length eval_basic_query_length
      split: prod.splits)
     (metis eval_basic_query_length fst_conv)

lemma or_groups_nonempty: "or_groups nq \<noteq> []"
  by (simp add: or_groups_def)

lemma foldl_or_acc:
  assumes "\<And>p. p \<in> set parts \<Longrightarrow> length (f p) = n" and "length a = n"
  shows "\<exists>m. foldl (\<lambda>acc part. or_acc acc (f part)) (Some a) parts = Some m \<and> length m = n
           \<and> (\<forall>i < n. m ! i \<longleftrightarrow> a ! i \<or> (\<exists>p \<in> set parts. f p ! i))"
  using assms
proof (induction parts arbitrary: a)
  case Nil
  then show ?case by simp
next
  case (Cons p ps)
  have len: "length (mask_or a (f p)) = n"
    using Cons.prems by (simp add: mask_or_def)
  have nth: "mask_or a (f p) ! i = (a ! i \<or> f p ! i)" if "i < n" for i
    using that Cons.prems by (simp add: mask_or_def)
  from Cons.IH [OF _ len] Cons.prems(1)
  obtain m where m: "foldl (\<lambda>acc part. or_acc acc (f part)) (Some (mask_or a (f p))) ps = Some m"
    "length m = n" "\<forall>i < n. m ! i \<longleftrightarrow> mask_or a (f p) ! i \<or> (\<exists>q \<in> set ps. f q ! i)"
    by auto
  then show ?case
    by (auto simp: or_acc_def nth)
qed

lemma foldl_or_acc_None:
  assumes "\<And>p. p \<in> set parts \<Longrightarrow> length (f p) = n" and "parts \<noteq> []"
  shows "\<exists>m. foldl (\<lambda>acc part. or_acc acc (f part)) None parts = Some m \<and> length m = n
           \<and> (\<forall>i < n. m ! i \<longleftrightarrow> (\<exists>p \<in> set parts. f p ! i))"
proof (cases parts)
  case Nil
  with assms(2) show ?thesis by simp
next
  case (Cons p ps)
  from foldl_or_acc [of ps f n "f p"] assms(1) Cons
  obtain m where "foldl (\<lambda>acc part. or_acc acc (f part)) (Some (f p)) ps = Some m"
    "length m = n" "\<forall>i < n. m ! i \<longleftrightarrow> f p ! i \<or> (\<exists>q \<in> set ps. f q ! i)"
    by auto
  with Cons show ?thesis
    by (auto simp: or_acc_def)
qed

lemma mask_from_query_with_rownum_union:
  assumes "df_ok df"
  shows "length (mask_from_query_with_rownum E df nq) = df_len df"
    and "i < df_len df \<Longrightarrow>
         mask_from_query_with_rownum E df nq ! i \<longleftrightarrow>
           (\<exists>g \<in> set (or_groups nq). fst (mask_group_with_rownum E df g) ! i)"
proof -
  from foldl_or_acc_None [of "or_groups nq" "\<lambda>g. fst (mask_group_with_rownum E df g)" "df_len df"]
    mask_group_with_rownum_length [OF assms] or_groups_nonempty
  obtain m where m: "foldl (\<lambda>acc part. or_acc acc (fst (mask_group_with_rownum E df part))) None
        (or_groups nq) = Some m" "length m = df_len df"
    "\<forall>i < df_len df. m ! i \<longleftrightarrow> (\<exists>g \<in> set (or_groups nq). fst (mask_group_with_rownum E df g) ! i)"
    by blast
  then have eq: "mask_from_query_with_rownum E df nq = m"
    by (simp add: mask_from_query_with_rownum_def)
  show "length (mask_from_query_with_rownum E df nq) = df_len df"
    using eq m by simp
  show "mask_from_query_with_rownum E df nq ! i \<longleftrightarrow>
           (\<exists>g \<in> set (or_groups nq). fst (mask_group_with_rownum E df g) ! i)" if "i < df_len df"
    using eq m that by simp
qed

section \<open>Where the expression is split\<close>

lemma quote_chars: "squote \<noteq> bslash" "dquote \<noteq> bslash" "squote \<noteq> dquote"
  by (simp_all add: squote_def dquote_def bslash_def)

lemma split_loop_in_squote:
  "squote \<notin> set body \<Longrightarrow> bslash \<notin> set body \<Longrightarrow>
   split_loop depth True False buf out (body @ squote # tl_s) =
   split_loop depth False False (buf @ body @ [squote]) out tl_s"
  by (induction body arbitrary: buf) (auto simp: quote_chars)

lemma split_loop_in_dquote:
  "dquote \<notin> set body \<Longrightarrow> bslash \<notin> set body \<Longrightarrow>
   split_loop depth False True buf out (body @ dquote # tl_s) =
   split_loop depth False False (buf @ body @ [dquote]) out tl_s"
  by (induction body arbitrary: buf) (auto simp: quote_chars)

lemma split_loop_in_parens:
  "set body \<inter> {bslash, squote, dquote, CHR ''('', CHR '')''} = {} \<Longrightarrow>
   split_loop (Suc d) False False buf out (body @ tl_s) =
   split_loop (Suc d) False False (buf @ body) out tl_s"
  by (induction body arbitrary: buf) (auto simp: Let_def split: option.splits)

lemma split_loop_escape:
  "split_loop depth in_s in_d buf out (bslash # c # tl_s) =
   split_loop depth in_s in_d (buf @ [bslash, c]) out tl_s"
  by simp


lemma rownum_only_group:
  assumes "distinct (df_index df)" and "remove_rownum_clauses g = (w, ns)" and "ns \<noteq> []"
    and "py_lower (if py_strip w = [] then ''True'' else py_strip w) = ''true''"
    and "i < df_len df"
  shows "fst (mask_group_with_rownum E df g) ! i \<longleftrightarrow> int i + 1 \<in> set ns"
proof -
  have "fst (mask_group_with_rownum E df g) = picks_mask df (pick_rows (df_index df) ns)"
    using assms(2-4) by (simp add: mask_group_with_rownum_def Let_def split: prod.splits)
  with assms(1,5) show ?thesis
    by (simp add: picks_mask_nth pick_rows_whole df_len_def)
qed

lemma no_rownum_group:
  assumes "remove_rownum_clauses g = (g, [])" and "py_strip g = g" and "g \<noteq> []"
  shows "fst (mask_group_with_rownum E df g) = fst (eval_basic_query E df g)"
  using assms by (simp add: mask_group_with_rownum_def Let_def split: prod.splits)

lemma or_groups_us_or_first: "or_groups filter_us_or_first = [filter_us, filter_rownum_1]"
  by code_simp

lemma remove_rownum_1: "remove_rownum_clauses filter_rownum_1 = ('' True '', [1])"
  by code_simp

lemma filter_us_plain:
  "remove_rownum_clauses filter_us = (filter_us, [])" "py_strip filter_us = filter_us"
  "filter_us \<noteq> []"
  by code_simp+

lemma us_or_first:
  assumes "df_ok df" and "distinct (df_index df)" and "i < df_len df"
  shows "mask_from_query_with_rownum E df filter_us_or_first ! i \<longleftrightarrow>
           fst (eval_basic_query E df filter_us) ! i \<or> i = 0"
proof -
  have "fst (mask_group_with_rownum E df filter_rownum_1) ! i \<longleftrightarrow> i = 0"
    using rownum_only_group [OF assms(2) remove_rownum_1 _ _ assms(3), where E = E]
    by (simp add: strip_true)
  then show ?thesis
    using mask_from_query_with_rownum_union(2) [OF assms(1,3), of E filter_us_or_first]
    by (simp add: or_groups_us_or_first no_rownum_group [OF filter_us_plain])
qed

text \<open>
  The mask of a whole expression is the union of the masks of the groups the scan
  returns, each evaluated on its own. The scan carries a quoted stretch and a
  parenthesised stretch into the current part whole, and an escaped character with its
  backslash.
\<close>

lemma mask_from_query_with_rownum_groups:
  assumes "df_ok df"
  shows "length (mask_from_query_with_rownum E df nq) = df_len df
    \<and> (\<forall>i < df_len df. mask_from_query_with_rownum E df nq ! i \<longleftrightarrow>
          (\<exists>g \<in> set (or_groups nq). fst (mask_group_with_rownum E df g) ! i))"
  using mask_from_query_with_rownum_union [OF assms, where E = E and nq = nq]
  by simp

section \<open>A header that ends in the letters of the word\<close>

lemma split_color: "split_top_level filter_color_red = [filter_color_head, filter_color_tail]"
  by code_simp

lemma or_groups_color: "or_groups filter_color_red = [filter_color_head, filter_color_tail]"
  by (simp add: or_groups_def split_color)

lemma color_fragments:
  "remove_rownum_clauses filter_color_head = (filter_color_head, [])"
  "remove_rownum_clauses filter_color_tail = (filter_color_tail, [])"
  "py_strip filter_color_head = filter_color_head"
  "py_strip filter_color_tail = filter_color_tail"
  "filter_color_head \<noteq> []" "filter_color_tail \<noteq> []"
  "rewrite_and_or filter_color_head = filter_color_head"
  "rewrite_and_or filter_color_tail = filter_color_tail"
  by code_simp+

lemma color_fragments_no_clause:
  "re_finditer (reflags_of 0) rx_eq_clause filter_color_head = []"
  "re_finditer (reflags_of 0) rx_num_clause filter_color_head = []"
  "re_finditer (reflags_of re_IGNORECASE) str_op_pat filter_color_head = []"
  "re_finditer (reflags_of 0) rx_eq_clause filter_color_tail = []"
  "re_finditer (reflags_of 0) rx_num_clause filter_color_tail = []"
  "re_finditer (reflags_of re_IGNORECASE) str_op_pat filter_color_tail = []"
  by code_simp+

lemma color_fragments_unrecognised:
  "mask_from_clauses E df filter_color_head = None"
  "mask_from_clauses E df filter_color_tail = None"
  by (simp_all add: mask_from_clauses_def color_fragments_no_clause)

lemma mask_or_all_true: "mask_or (all_true df) (all_true df) = all_true df"
  by (simp add: mask_or_def all_true_def zip_replicate)

lemma color_mask_all_true:
  assumes "pd_query E df filter_color_head = None" and "pd_query E df filter_color_tail = None"
  shows "mask_from_query_with_rownum E df filter_color_red = all_true df"
proof -
  have h: "fst (mask_group_with_rownum E df filter_color_head) = all_true df"
    using assms(1)
    by (simp add: no_rownum_group [OF color_fragments(1,3,5)] eval_basic_query_def
          color_fragments(7) color_fragments_unrecognised)
  have t: "fst (mask_group_with_rownum E df filter_color_tail) = all_true df"
    using assms(2)
    by (simp add: no_rownum_group [OF color_fragments(2,4,6)] eval_basic_query_def
          color_fragments(8) color_fragments_unrecognised)
  show ?thesis
    by (simp add: mask_from_query_with_rownum_def or_groups_color or_acc_def h t mask_or_all_true)
qed

lemma color_demo:
  "pd_query demo_ext df_color filter_color_head = None"
  "pd_query demo_ext df_color filter_color_tail = None"
  "normalize_row_filter filter_color_plain (df_columns df_color) = Inr filter_color_red"
  "fst (eval_basic_query demo_ext df_color filter_color_red) = [True, False]"
  "all_true df_color = [True, True]"
  "ensure_mask_from_query demo_ext df_color (Some filter_color_plain) = Inr [True, True]"
  by code_simp+

text \<open>
  C4. The expression is not split at the word \<^verbatim>\<open>or\<close> only. The pattern \<^verbatim>\<open>\bor\b\<close> is
  tried on the rest of the expression from the current character on, where its first
  \<^verbatim>\<open>\b\<close> always holds, so the letters \<open>or\<close> at the end of a name are taken for the
  word. The filter \<^verbatim>\<open>`Color` == 'red'\<close>, which has no \<^verbatim>\<open>or\<close>, is cut into the groups
  \<^verbatim>\<open>`Col\<close> and \<^verbatim>\<open>` == 'red'\<close>; when the query engine refuses both, each group falls
  back to all rows and the mask of the filter selects every row, not the rows whose
  colour is \<open>red\<close>.
\<close>

theorem split_top_level_inside_name:
  "split_top_level filter_color_red = [filter_color_head, filter_color_tail]
   \<and> or_groups filter_color_red = [filter_color_head, filter_color_tail]
   \<and> (pd_query E df filter_color_head = None \<and> pd_query E df filter_color_tail = None
        \<longrightarrow> mask_from_query_with_rownum E df filter_color_red = all_true df)
   \<and> fst (eval_basic_query demo_ext df_color filter_color_red) = [True, False]
   \<and> ensure_mask_from_query demo_ext df_color (Some filter_color_plain) = Inr [True, True]"
  by (simp add: split_color or_groups_color color_mask_all_true color_demo(4,6))

theorem split_top_level_inside_name_witness:
  "pd_query demo_ext df_color filter_color_head = None
   \<and> pd_query demo_ext df_color filter_color_tail = None
   \<and> mask_from_query_with_rownum demo_ext df_color filter_color_red = [True, True]
   \<and> fst (eval_basic_query demo_ext df_color filter_color_red) = [True, False]"
proof -
  note T = split_top_level_inside_name [of demo_ext df_color]
  from T color_demo(1,2) have "mask_from_query_with_rownum demo_ext df_color filter_color_red = all_true df_color"
    by blast
  then have a: "mask_from_query_with_rownum demo_ext df_color filter_color_red = [True, True]"
    by (simp add: color_demo(5))
  from T have b: "fst (eval_basic_query demo_ext df_color filter_color_red) = [True, False]"
    by blast
  from color_demo(1) color_demo(2) a b show ?thesis
    by (intro conjI)
qed

section \<open>The case-insensitive safety net\<close>

lemma filter_alice_clauses:
  "map (\<lambda>m. (grp m 1, grp m 3)) (re_finditer (reflags_of 0) rx_eq_clause filter_alice) = [(''Name'', ''alice'')]"
  "re_finditer (reflags_of 0) rx_num_clause filter_alice = []"
  "re_finditer (reflags_of re_IGNORECASE) str_op_pat filter_alice = []"
  "has_string_equality filter_alice"
  "py_casefold ''Alice'' = py_casefold ''alice''"
  by code_simp+

lemma mask_from_clauses_alice:
  assumes "df_col df ''Name'' = Some cells"
  shows "mask_from_clauses E df filter_alice = Some (eq_ci_mask cells ''alice'')"
proof -
  obtain m where m: "re_finditer (reflags_of 0) rx_eq_clause filter_alice = [m]"
    "grp m (Suc 0) = ''Name''" "grp m 3 = ''alice''"
    using filter_alice_clauses(1) by auto
  show ?thesis
    using assms
    by (simp add: mask_from_clauses_def Let_def m eq_step_def and_acc_def filter_alice_clauses(2,3))
qed

lemma eq_ci_mask_alice:
  "i < length cells \<Longrightarrow> cells ! i = Some ''Alice'' \<Longrightarrow> eq_ci_mask cells ''alice'' ! i"
  by (simp add: eq_ci_mask_def filter_alice_clauses(5))

text \<open>
  C6. When the query engine accepts the expression, as it stands or after the rewrite
  of \<^verbatim>\<open>and\<close> and \<^verbatim>\<open>or\<close>, but selects no row, and the expression has an equality with
  a quoted literal, the clause matcher is run on the expression and its mask, when it
  gives one, is the result. For \<^verbatim>\<open>`Name` == 'alice'\<close> that mask is the case-insensitive
  comparison of the column with \<open>alice\<close>, so a row whose name is \<open>Alice\<close> is selected.
\<close>

theorem eval_basic_query_zero_hit_fallback:
  "(pd_query E df q = Some idx \<and> mask_sum (isin_mask df idx) = 0 \<and> has_string_equality q
      \<and> mask_from_clauses E df q = Some m
      \<longrightarrow> eval_basic_query E df q = (m, ''query_zero_and_fallback'', q))
   \<and> (pd_query E df q = None \<and> pd_query E df (rewrite_and_or q) = Some idx
      \<and> mask_sum (isin_mask df idx) = 0 \<and> has_string_equality q
      \<and> mask_from_clauses E df q = Some m
      \<longrightarrow> eval_basic_query E df q = (m, ''query_rewrite_zero_and_fallback'', rewrite_and_or q))
   \<and> (df_col df ''Name'' = Some cells \<and> i < length cells \<and> cells ! i = Some ''Alice''
      \<and> ((pd_query E df filter_alice = Some idx \<and> mask_sum (isin_mask df idx) = 0)
          \<or> (pd_query E df filter_alice = None
              \<and> pd_query E df (rewrite_and_or filter_alice) = Some idx
              \<and> mask_sum (isin_mask df idx) = 0))
      \<longrightarrow> fst (eval_basic_query E df filter_alice) = eq_ci_mask cells ''alice''
          \<and> fst (eval_basic_query E df filter_alice) ! i)"
  by (auto simp: eval_basic_query_def Let_def mask_from_clauses_alice eq_ci_mask_alice
        filter_alice_clauses(4))

lemma demo_alice:
  "pd_query demo_ext demo_df filter_alice = Some []"
  "mask_sum (isin_mask demo_df []) = 0"
  "df_col demo_df ''Name'' = Some [Some ''Alice'', Some ''Bob'', None, Some ''Dan'']"
  "mask_from_clauses demo_ext demo_df filter_alice = Some [True, False, False, False]"
  by code_simp+

theorem eval_basic_query_zero_hit_fallback_witness:
  "pd_query demo_ext demo_df filter_alice = Some []
   \<and> mask_sum (isin_mask demo_df []) = 0
   \<and> has_string_equality filter_alice
   \<and> mask_from_clauses demo_ext demo_df filter_alice = Some [True, False, False, False]
   \<and> df_col demo_df ''Name'' = Some [Some ''Alice'', Some ''Bob'', None, Some ''Dan'']
   \<and> eval_basic_query demo_ext demo_df filter_alice
        = ([True, False, False, False], ''query_zero_and_fallback'', filter_alice)
   \<and> fst (eval_basic_query demo_ext demo_df filter_alice) ! 0"
proof -
  note T = eval_basic_query_zero_hit_fallback
    [of demo_ext demo_df filter_alice "[]" "[True, False, False, False]"
        "[Some ''Alice'', Some ''Bob'', None, Some ''Dan'']" 0]
  from T demo_alice filter_alice_clauses(4)
  have a: "eval_basic_query demo_ext demo_df filter_alice
        = ([True, False, False, False], ''query_zero_and_fallback'', filter_alice)"
    by blast
  have c: "0 < length [Some ''Alice'', Some ''Bob'', None, Some ''Dan'']"
    "[Some ''Alice'', Some ''Bob'', None, Some ''Dan''] ! 0 = Some ''Alice''"
    by simp_all
  from T demo_alice c
  have b: "fst (eval_basic_query demo_ext demo_df filter_alice) ! 0"
    by blast
  from demo_alice(1) demo_alice(2) filter_alice_clauses(4) demo_alice(4) demo_alice(3) a b
  show ?thesis
    by (intro conjI)
qed

section \<open>What can and what cannot raise while a mask is built\<close>

lemma eval_basic_query_all_true:
  "pd_query E df q = None \<Longrightarrow> pd_query E df (rewrite_and_or q) = None \<Longrightarrow>
   mask_from_clauses E df q = None \<Longrightarrow>
   eval_basic_query E df q = (all_true df, ''all_false'', q)"
  by (simp add: eval_basic_query_def Let_def)

lemma sub_headers_total:
  "\<forall>col \<in> set cols. bslash \<notin> set col \<Longrightarrow> \<exists>q'. sub_headers mk cols q = Inr q'"
  by (induction cols arbitrary: q) (simp_all add: re_sub_def btick_def bslash_def)

lemma normalize_row_filter_total:
  assumes "\<forall>col \<in> set headers. bslash \<notin> set col"
  shows "\<exists>nq. normalize_row_filter q headers = Inr nq"
proof -
  have h: "\<forall>col \<in> set (sorted_headers headers). bslash \<notin> set col"
    using assms by (simp add: sorted_headers_def)
  from sub_headers_total [OF h] obtain q1 where
    q1: "sub_headers rx_quoted_col (sorted_headers headers) q = Inr q1" by blast
  from sub_headers_total [OF h] obtain q2 where
    q2: "sub_headers rx_bare_col (sorted_headers headers) q1 = Inr q2" by blast
  show ?thesis
    by (simp add: normalize_row_filter_def q1 q2 Let_def)
qed

lemma ensure_mask_from_query_total:
  assumes "\<forall>col \<in> set (df_columns df). bslash \<notin> set col"
  shows "\<exists>m. ensure_mask_from_query E df query = Inr m"
proof (cases query)
  case None
  then show ?thesis by (simp add: ensure_mask_from_query_def)
next
  case (Some qs)
  from normalize_row_filter_total [OF assms] obtain nq
    where "normalize_row_filter qs (df_columns df) = Inr nq" by blast
  with Some show ?thesis
    by (simp add: ensure_mask_from_query_def Let_def split: option.splits)
qed

text \<open>
  C5. Building the mask of a row filter can raise. The headers of the dataset are used
  as replacement templates when the filter is normalised, before any tier is tried; on
  a dataset with a column named \<^verbatim>\<open>Y\N\<close> the template parser refuses the header and the
  filter \<^verbatim>\<open>x == 1\<close>, like any other filter that is not blank, ends in \<^verbatim>\<open>re.error\<close>
  whatever the query engine would do.
\<close>

theorem ensure_mask_from_query_raises:
  "ensure_mask_from_query E df_bslash (Some filter_x_is_1) = Inl ReError"
proof -
  have "normalize_row_filter filter_x_is_1 (df_columns df_bslash) = Inl ReError"
    by code_simp
  moreover have "filter_x_is_1 \<noteq> []" "py_strip filter_x_is_1 \<noteq> []"
    by code_simp+
  ultimately show ?thesis
    by (simp add: ensure_mask_from_query_def)
qed

section \<open>Substitution with the pattern that matches a whole line\<close>











section \<open>Columns of a dataset\<close>

lemma df_col_known: "c \<in> set (df_columns df) \<Longrightarrow> \<exists>cells. df_col df c = Some cells"
proof -
  assume "c \<in> set (df_columns df)"
  then have "\<exists>k \<in> set (df_cols df). col_name k = c"
    by (auto simp: df_columns_def)
  then have "find (\<lambda>k. col_name k = c) (df_cols df) \<noteq> None"
    by (auto simp: find_None_iff)
  then show ?thesis
    by (auto simp: df_col_def)
qed

lemma df_col_columns: "df_col df c = Some cells \<Longrightarrow> c \<in> set (df_columns df)"
  by (auto simp: df_col_def df_columns_def find_Some_iff)





section \<open>Replacing in the cells of a column\<close>





section \<open>The loops\<close>

lemma find_loop_total:
  "\<forall>c \<in> set cs. c \<in> set (df_columns df) \<Longrightarrow>
   \<exists>t pc ch. find_loop fl r df msk cs st = Inr (t, pc, ch)"
proof (induction cs arbitrary: st)
  case Nil
  then show ?case by (cases st) auto
next
  case (Cons c cs)
  obtain t pc ch where st: "st = (t, pc, ch)" by (cases st) auto
  from Cons.prems df_col_known [of c df] obtain cells where "df_col df c = Some cells"
    by auto
  with Cons st show ?case
    by (simp add: Let_def)
qed


lemma ensure_mask_from_query_length:
  assumes "df_ok df" and "ensure_mask_from_query E df rf = Inr msk"
  shows "length msk = df_len df"
  using assms
  by (auto simp: ensure_mask_from_query_def Let_def all_true_def eq_ci_mask_def
        mask_from_query_with_rownum_union(1) df_col_length
      split: option.splits if_splits sum.splits)

section \<open>What is settled before the pattern is compiled\<close>



lemma is_match_all_default: "is_match_all ''^.*$''"
  by code_simp

lemma decide_find_adopts:
  assumes "py_lower intent = ''find''" and "pattern = ''^.*$'' \<or> is_match_all pattern"
    and "display_regex_and_columns_from_row_filter nrf = (Some drx, dcols)" and "drx \<noteq> []"
  shows "d_use_pattern (decide df intent pattern columns replacement nrf) = drx"
    and "d_regex_source (decide df intent pattern columns replacement nrf) = ''row_filter-derived''"
    and "d_row_filter_only_hits (decide df intent pattern columns replacement nrf)"
    and "d_display_regex (decide df intent pattern columns replacement nrf) = Some drx"
    and "d_display_regex_source (decide df intent pattern columns replacement nrf)
           = Some ''row_filter-derived''"
    and "d_cols (decide df intent pattern columns replacement nrf)
           = (if columns = None \<and> dcols \<noteq> [] then known_columns df dcols
              else auto_columns df intent pattern columns)"
proof -
  have ma: "is_match_all pattern"
    using assms(2) is_match_all_default by auto
  have nr: "py_lower intent \<noteq> ''replace''"
    using assms(1) by simp
  show "d_use_pattern (decide df intent pattern columns replacement nrf) = drx"
    and "d_regex_source (decide df intent pattern columns replacement nrf) = ''row_filter-derived''"
    and "d_row_filter_only_hits (decide df intent pattern columns replacement nrf)"
    and "d_display_regex (decide df intent pattern columns replacement nrf) = Some drx"
    and "d_display_regex_source (decide df intent pattern columns replacement nrf)
           = Some ''row_filter-derived''"
    and "d_cols (decide df intent pattern columns replacement nrf)
           = (if columns = None \<and> dcols \<noteq> [] then known_columns df dcols
              else auto_columns df intent pattern columns)"
    using assms(1,3,4) ma nr
    by (simp_all add: decide_def decide_find_def Let_def truthy_def or_empty_def)
qed

lemma display_regex_nonempty:
  "display_regex_and_columns_from_row_filter nrf = (Some drx, dcols) \<Longrightarrow> drx \<noteq> []"
  by (auto simp: display_regex_and_columns_from_row_filter_def Let_def
      split: option.splits if_splits)

section \<open>Replace with the pattern that matches a whole line\<close>




lemma replace_demo_facts:
  "py_lower ''replace'' = ''replace''"
  "[''Name''] \<noteq> []" "distinct [''Name'']" "set [''Name''] \<subseteq> set (df_columns demo_df)"
  "\<not> is_date_normalize (Some ''X'')"
  "ensure_mask_from_query demo_ext demo_df (Some filter_us) = Inr [False, True, False, True]"
  "norm_row_filter_of (Some filter_us) (df_columns demo_df) = Inr (Some filter_us)"
  "re_compile demo_ext ''^.*$'' (compile_flags ''i'') = Some rx_match_all"
  "bslash \<notin> set (or_empty (Some ''X''))"
  "or_empty (Some ''X'') = ''X''"
  "df_col demo_df ''Name'' = Some [Some ''Alice'', Some ''Bob'', None, Some ''Dan'']"
  "df_col demo_df ''Country'' = Some [Some ''UK'', Some ''US'', Some ''UK'', Some ''US'']"
  "newline \<notin> set ''Bob''" "newline \<notin> set ''Dan''"
  by code_simp+


section \<open>Find with a pattern that matches everything\<close>

lemma display_us:
  "display_regex_and_columns_from_row_filter (Some filter_us) = (Some ''(?:US)'', [''Country''])"
  by code_simp

lemma display_gender:
  "display_regex_and_columns_from_row_filter (Some filter_gender)
     = (Some ''(?:Female)'', [''Gender''])"
  by code_simp

text \<open>
  A clause with \<^verbatim>\<open>.str.startswith\<close> gives no pattern: after the quoted value the first
  pattern of the derivation asks for the name of the operation again (\<^verbatim>\<open>\2\<close>).
\<close>

lemma display_prefix_clause:
  "display_regex_and_columns_from_row_filter (Some filter_name_prefix) = (None, [])"
  by code_simp

lemma find_names_demo:
  "map_option p_regex
     (res_payload
        (execute_plan demo_ext demo_dn demo_df ''find'' ''^.*$'' ''i'' (Some [''Name'']) None
           (Some filter_us) 1000))
   = Some ''(?:US)''"
  "map_option p_regex_source
     (res_payload
        (execute_plan demo_ext demo_dn demo_df ''find'' ''^.*$'' ''i'' (Some [''Name'']) None
           (Some filter_us) 1000))
   = Some ''row_filter-derived''"
  "map_option p_columns_applied
     (res_payload
        (execute_plan demo_ext demo_dn demo_df ''find'' ''^.*$'' ''i'' (Some [''Name'']) None
           (Some filter_us) 1000))
   = Some [''Name'']"
  by code_simp+

text \<open>
  C2, as stated, fails. A find with the pattern \<^verbatim>\<open>^.*$\<close>, the columns \<open>Name\<close> given
  with the plan and the row filter \<^verbatim>\<open>`Country` == 'US'\<close> adopts the pattern derived
  from the filter, \<^verbatim>\<open>(?:US)\<close>, but not the column the filter refers to: the columns
  applied are those of the plan.
\<close>

theorem find_keeps_given_columns:
  "display_regex_and_columns_from_row_filter (Some filter_us) = (Some ''(?:US)'', [''Country''])
   \<and> is_match_all ''^.*$''
   \<and> map_option p_regex_source
        (res_payload
           (execute_plan demo_ext demo_dn demo_df ''find'' ''^.*$'' ''i'' (Some [''Name'']) None
              (Some filter_us) 1000))
      = Some ''row_filter-derived''
   \<and> map_option p_columns_applied
        (res_payload
           (execute_plan demo_ext demo_dn demo_df ''find'' ''^.*$'' ''i'' (Some [''Name'']) None
              (Some filter_us) 1000))
      = Some [''Name'']"
  by (simp only: display_us is_match_all_default find_names_demo)

lemma sorted_set_distinct: "distinct xs \<Longrightarrow> sorted_set xs = sort xs"
  by (simp add: sorted_set_def distinct_remdups_id)

text \<open>
  C2, amended. A find whose pattern is empty or matches everything, with a row filter
  from which a pattern is derived (as it is from an equality with a quoted literal that
  is not empty), on a dataset with distinct row labels whose mask is built without an
  exception, when \<^verbatim>\<open>re.compile\<close> accepts the derived pattern and the columns applied are
  columns of the dataset: the dataset is returned as it is, the pattern reported is the
  derived one with the source \<open>row_filter-derived\<close>, the columns applied are the
  columns the filter refers to that the dataset has when the plan gave no columns and
  the filter refers to some, and otherwise the columns of the plan or the automatic
  ones; the result rows are the rows of the mask, counted exactly and listed in
  ascending order up to 2000, and the description says that the result rows are the
  rows where the row filter is true.
\<close>

theorem execute_plan_find_filter_only:
  assumes intent: "py_lower intent = ''find''"
    and pat: "pattern = [] \<or> is_match_all pattern"
    and ok: "df_ok df" and dist: "distinct (df_index df)"
    and msk: "ensure_mask_from_query E df row_filter = Inr msk"
    and nrf: "norm_row_filter_of row_filter (df_columns df) = Inr nrf"
    and disp: "display_regex_and_columns_from_row_filter nrf = (Some drx, dcols)"
    and comp: "re_compile E drx (compile_flags flags) = Some r"
    and cols: "cols = (if columns = None \<and> dcols \<noteq> [] then known_columns df dcols
                       else auto_columns df intent (if pattern = [] then ''^.*$'' else pattern) columns)"
    and present: "set cols \<subseteq> set (df_columns df)"
  shows "\<exists>P.
      execute_plan E DN df intent pattern flags columns replacement row_filter head_n = Inr (df, P)
      \<and> p_regex P = drx \<and> p_regex_source P = ''row_filter-derived''
      \<and> p_display_regex P = Some drx
      \<and> p_columns_applied P = cols
      \<and> p_result_rows_description P = desc_filter_only
      \<and> p_result_rows_count P = mask_sum msk
      \<and> p_result_rows_indices P = take 2000 (sort (index_where df msk))
      \<and> set (index_where df msk) = {df_index df ! i | i. i < df_len df \<and> msk ! i}"
proof -
  let ?pattern = "if pattern = [] then ''^.*$'' else pattern"
  let ?d = "decide df intent ?pattern columns replacement nrf"
  have p: "?pattern = ''^.*$'' \<or> is_match_all ?pattern"
    using pat by auto
  have ne: "drx \<noteq> []"
    using disp by (rule display_regex_nonempty)
  note D = decide_find_adopts [OF intent p disp ne, of df columns replacement]
  have mlen: "length msk = df_len df"
    using ok msk by (rule ensure_mask_from_query_length)
  have known: "\<forall>c \<in> set cols. c \<in> set (df_columns df)"
    using present by auto
  from find_loop_total [OF known, of "reflags_of (compile_flags flags)" r msk "(0, [], [])"]
  obtain t pc ch where
    loop: "find_loop (reflags_of (compile_flags flags)) r df msk cols (0, [], []) = Inr (t, pc, ch)"
    by blast
  have dc: "d_cols ?d = cols"
    using D(6) cols by simp
  have cnt: "length (remdups (index_where df msk)) = mask_sum msk"
    using index_where_distinct [OF dist, of msk] index_where_length [OF mlen]
    by (simp add: distinct_remdups_id)
  have srt: "sorted_set (index_where df msk) = sort (index_where df msk)"
    using index_where_distinct [OF dist, of msk] by (rule sorted_set_distinct)
  have rows: "set (index_where df msk) = {df_index df ! i | i. i < df_len df \<and> msk ! i}"
    using mlen by (auto simp: index_where_def set_zip df_len_def) force
  have nr: "py_lower intent \<noteq> ''replace''"
    using intent by simp
  have ex: "\<exists>P. execute_plan E DN df intent pattern flags columns replacement row_filter head_n
        = Inr (df, P)
      \<and> p_regex P = drx \<and> p_regex_source P = ''row_filter-derived''
      \<and> p_display_regex P = Some drx
      \<and> p_columns_applied P = cols
      \<and> p_result_rows_description P = desc_filter_only
      \<and> p_result_rows_count P = mask_sum msk
      \<and> p_result_rows_indices P = take 2000 (sort (index_where df msk))"
  proof (cases "pattern = []")
    case True
    with intent msk nrf comp D dc loop cnt srt show ?thesis
      by (simp add: execute_plan_def Let_def execute_find_def)
  next
    case False
    with intent msk nrf comp D dc loop cnt srt show ?thesis
      by (simp add: execute_plan_def Let_def execute_find_def)
  qed
  with rows show ?thesis by blast
qed

lemma find_demo_facts:
  "py_lower ''find'' = ''find''"
  "re_compile demo_ext ''(?:US)'' (compile_flags ''i'') = Some (Str ''US'')"
  "known_columns demo_df [''Country''] = [''Country'']"
  "set [''Country''] \<subseteq> set (df_columns demo_df)"
  "mask_sum [False, True, False, True] = 2"
  "take 2000 (sort (index_where demo_df [False, True, False, True])) = [1, 3]"
  by code_simp+

theorem execute_plan_find_filter_only_witness:
  "py_lower ''find'' = ''find''
   \<and> is_match_all ''^.*$''
   \<and> df_ok demo_df \<and> distinct (df_index demo_df)
   \<and> ensure_mask_from_query demo_ext demo_df (Some filter_us) = Inr [False, True, False, True]
   \<and> norm_row_filter_of (Some filter_us) (df_columns demo_df) = Inr (Some filter_us)
   \<and> display_regex_and_columns_from_row_filter (Some filter_us) = (Some ''(?:US)'', [''Country''])
   \<and> re_compile demo_ext ''(?:US)'' (compile_flags ''i'') = Some (Str ''US'')
   \<and> set [''Country''] \<subseteq> set (df_columns demo_df)
   \<and> map_option p_regex
        (res_payload
           (execute_plan demo_ext demo_dn demo_df ''find'' ''^.*$'' ''i'' None None
              (Some filter_us) 1000))
      = Some ''(?:US)''
   \<and> map_option p_columns_applied
        (res_payload
           (execute_plan demo_ext demo_dn demo_df ''find'' ''^.*$'' ''i'' None None
              (Some filter_us) 1000))
      = Some [''Country'']
   \<and> map_option p_result_rows_description
        (res_payload
           (execute_plan demo_ext demo_dn demo_df ''find'' ''^.*$'' ''i'' None None
              (Some filter_us) 1000))
      = Some desc_filter_only
   \<and> map_option p_result_rows_count
        (res_payload
           (execute_plan demo_ext demo_dn demo_df ''find'' ''^.*$'' ''i'' None None
              (Some filter_us) 1000))
      = Some 2
   \<and> map_option p_result_rows_indices
        (res_payload
           (execute_plan demo_ext demo_dn demo_df ''find'' ''^.*$'' ''i'' None None
              (Some filter_us) 1000))
      = Some [1, 3]"
proof -
  let ?run = "execute_plan demo_ext demo_dn demo_df ''find'' ''^.*$'' ''i'' None None
              (Some filter_us) 1000"
  have pat: "''^.*$'' = [] \<or> is_match_all ''^.*$''"
    using is_match_all_default by simp
  have cols: "[''Country''] =
      (if (None :: string list option) = None \<and> [''Country''] \<noteq> []
       then known_columns demo_df [''Country'']
       else auto_columns demo_df ''find'' (if ''^.*$'' = [] then ''^.*$'' else ''^.*$'') None)"
    by (simp add: find_demo_facts(3))
  note T = execute_plan_find_filter_only
    [OF find_demo_facts(1) pat demo_df_ok(1,2) replace_demo_facts(6,7) display_us
        find_demo_facts(2) cols find_demo_facts(4),
     where DN = demo_dn and head_n = 1000 and replacement = None]
  from T obtain P where run: "?run = Inr (demo_df, P)"
    and P: "p_regex P = ''(?:US)''" "p_columns_applied P = [''Country'']"
      "p_result_rows_description P = desc_filter_only"
      "p_result_rows_count P = mask_sum [False, True, False, True]"
      "p_result_rows_indices P = take 2000 (sort (index_where demo_df [False, True, False, True]))"
    by blast
  from run P have r:
    "map_option p_regex (res_payload ?run) = Some ''(?:US)''"
    "map_option p_columns_applied (res_payload ?run) = Some [''Country'']"
    "map_option p_result_rows_description (res_payload ?run) = Some desc_filter_only"
    "map_option p_result_rows_count (res_payload ?run) = Some 2"
    "map_option p_result_rows_indices (res_payload ?run) = Some [1, 3]"
    by (simp_all add: res_payload_def find_demo_facts(5,6))
  from find_demo_facts(1) is_match_all_default demo_df_ok(1) demo_df_ok(2) replace_demo_facts(6)
    replace_demo_facts(7) display_us find_demo_facts(2) find_demo_facts(4) r
  show ?thesis
    by (intro conjI)
qed

end
